theory Spec2Isabelle
  imports Complex_Main
begin

section \<open>Numbers of the valuation engine\<close>

text \<open>
  The engine of \<^verbatim>\<open>app.py\<close> computes with Python floats and numpy
  \<^verbatim>\<open>float64\<close> values. They are modelled here as exact real numbers extended by
  one more value, \<open>NaN\<close>: arithmetic neither rounds nor overflows, but an invalid
  operation yields \<open>NaN\<close> as it does in the program. The only invalid operation the
  engine can perform on real numbers is \<^verbatim>\<open>np.sqrt\<close> of a negative \<open>dt\<close>; from
  there \<open>NaN\<close> spreads through \<open>+\<close>, \<open>-\<close>, \<open>*\<close>, \<open>/\<close>, \<open>exp\<close> and the
  comparisons exactly as in IEEE arithmetic (every comparison with \<open>NaN\<close> but
  \<^verbatim>\<open>!=\<close> is false). Infinities, rounding and overflow are outside the model.

  A division by zero is not a real number either: numpy yields \<open>NaN\<close> for \<open>0/0\<close> and
  an infinity otherwise, and the model yields \<open>NaN\<close> in both cases. Every division of
  the engine is guarded (\<^verbatim>\<open>u != d\<close>, \<^verbatim>\<open>delta > 0\<close>,
  \<^verbatim>\<open>base_option_value == 0\<close>) or has a divisor that cannot be zero (\<open>u\<close>, a
  result of \<open>exp\<close>, and the constants 6 and 1000), but for \<^verbatim>\<open>T / n\<close>, which
  raises \<^verbatim>\<open>ZeroDivisionError\<close> and is modelled as such.
\<close>

datatype fl = NaN | Fin real

instantiation fl :: "{zero, one, plus, minus, uminus, times, inverse, abs, ord}"
begin

definition zero_fl :: fl where
  "zero_fl = Fin 0"

definition one_fl :: fl where
  "one_fl = Fin 1"

definition plus_fl :: "fl \<Rightarrow> fl \<Rightarrow> fl" where
  "plus_fl a b = (case (a, b) of (Fin x, Fin y) \<Rightarrow> Fin (x + y) | _ \<Rightarrow> NaN)"

definition minus_fl :: "fl \<Rightarrow> fl \<Rightarrow> fl" where
  "minus_fl a b = (case (a, b) of (Fin x, Fin y) \<Rightarrow> Fin (x - y) | _ \<Rightarrow> NaN)"

definition uminus_fl :: "fl \<Rightarrow> fl" where
  "uminus_fl a = (case a of Fin x \<Rightarrow> Fin (- x) | NaN \<Rightarrow> NaN)"

definition times_fl :: "fl \<Rightarrow> fl \<Rightarrow> fl" where
  "times_fl a b = (case (a, b) of (Fin x, Fin y) \<Rightarrow> Fin (x * y) | _ \<Rightarrow> NaN)"

definition divide_fl :: "fl \<Rightarrow> fl \<Rightarrow> fl" where
  "divide_fl a b =
     (case (a, b) of (Fin x, Fin y) \<Rightarrow> (if y = 0 then NaN else Fin (x / y)) | _ \<Rightarrow> NaN)"

definition inverse_fl :: "fl \<Rightarrow> fl" where
  "inverse_fl a = (case a of Fin x \<Rightarrow> (if x = 0 then NaN else Fin (inverse x)) | NaN \<Rightarrow> NaN)"

definition abs_fl :: "fl \<Rightarrow> fl" where
  "abs_fl a = (case a of Fin x \<Rightarrow> Fin \<bar>x\<bar> | NaN \<Rightarrow> NaN)"

definition less_eq_fl :: "fl \<Rightarrow> fl \<Rightarrow> bool" where
  "less_eq_fl a b = (case (a, b) of (Fin x, Fin y) \<Rightarrow> x \<le> y | _ \<Rightarrow> False)"

definition less_fl :: "fl \<Rightarrow> fl \<Rightarrow> bool" where
  "less_fl a b = (case (a, b) of (Fin x, Fin y) \<Rightarrow> x < y | _ \<Rightarrow> False)"

instance ..

end

text \<open>
  Python's \<^verbatim>\<open>a != b\<close> and \<^verbatim>\<open>a == b\<close> on floats: \<open>NaN\<close> differs from
  everything, itself included.
\<close>

definition fl_ne :: "fl \<Rightarrow> fl \<Rightarrow> bool" where
  "fl_ne a b = (case (a, b) of (Fin x, Fin y) \<Rightarrow> x \<noteq> y | _ \<Rightarrow> True)"

definition fl_eq :: "fl \<Rightarrow> fl \<Rightarrow> bool" where
  "fl_eq a b = (\<not> fl_ne a b)"

text \<open>\<^verbatim>\<open>np.exp\<close> and \<^verbatim>\<open>np.sqrt\<close>; the square root of a negative number is \<open>NaN\<close>.\<close>

definition fl_exp :: "fl \<Rightarrow> fl" where
  "fl_exp a = (case a of Fin x \<Rightarrow> Fin (exp x) | NaN \<Rightarrow> NaN)"

definition fl_sqrt :: "fl \<Rightarrow> fl" where
  "fl_sqrt a = (case a of Fin x \<Rightarrow> (if x < 0 then NaN else Fin (sqrt x)) | NaN \<Rightarrow> NaN)"

text \<open>
  \<^verbatim>\<open>x ** k\<close> for an integer \<open>k\<close>: the power with exponent zero is one for every
  base, \<open>NaN\<close> included. \<^verbatim>\<open>x ** y\<close> for a float \<open>y\<close> is only used by the engine
  with a positive base.
\<close>

definition fl_pow :: "fl \<Rightarrow> int \<Rightarrow> fl" where
  "fl_pow a k = (if k = 0 then Fin 1 else (case a of Fin x \<Rightarrow> Fin (x powi k) | NaN \<Rightarrow> NaN))"

definition fl_powr :: "fl \<Rightarrow> fl \<Rightarrow> fl" where
  "fl_powr a b = (case (a, b) of (Fin x, Fin y) \<Rightarrow> Fin (x powr y) | _ \<Rightarrow> NaN)"

text \<open>
  Python's builtin \<^verbatim>\<open>max(a, b)\<close> and \<^verbatim>\<open>min(a, b)\<close> keep the first argument
  unless the second compares strictly greater (smaller).
\<close>

definition py_max :: "fl \<Rightarrow> fl \<Rightarrow> fl" where
  "py_max a b = (if a < b then b else a)"

definition py_min :: "fl \<Rightarrow> fl \<Rightarrow> fl" where
  "py_min a b = (if b < a then b else a)"

datatype py_error =
  ZeroDivisionError | IndexError | KeyError | ValueError | TypeError | AttributeError

section \<open>The lattices of \<^verbatim>\<open>calculate_lattices\<close>\<close>

text \<open>
  A lattice is a list of rows, \<^verbatim>\<open>L[i][j]\<close> being \<open>cell L i j\<close>; the assignment
  \<^verbatim>\<open>L[i][j] = v\<close> is \<open>set_cell L i j v\<close>. Inside \<^verbatim>\<open>calculate_lattices\<close> every
  index is within the \<open>(n+1) \<times> (n+1)\<close> square.
\<close>

type_synonym lattice = "fl list list"

definition cell :: "lattice \<Rightarrow> nat \<Rightarrow> nat \<Rightarrow> fl" where
  "cell L i j = L ! i ! j"

definition set_cell :: "lattice \<Rightarrow> nat \<Rightarrow> nat \<Rightarrow> fl \<Rightarrow> lattice" where
  "set_cell L i j v = L[i := (L ! i)[j := v]]"

text \<open>Lines 120 to 123: \<^verbatim>\<open>dt = T / n\<close> (for \<open>n \<noteq> 0\<close>), \<open>u\<close> and \<open>d\<close>.\<close>

definition time_step :: "fl \<Rightarrow> int \<Rightarrow> fl" where
  "time_step T n = T / Fin (real_of_int n)"

definition up_factor :: "fl \<Rightarrow> fl \<Rightarrow> fl" where
  "up_factor sigma dt = fl_exp (sigma * fl_sqrt dt)"

definition down_factor :: "fl \<Rightarrow> fl" where
  "down_factor u = 1 / u"

text \<open>Line 125: the asset lattice, on the full square.\<close>

definition asset_lattice :: "fl \<Rightarrow> fl \<Rightarrow> fl \<Rightarrow> int \<Rightarrow> lattice" where
  "asset_lattice V u d n =
     map (\<lambda>i. map (\<lambda>j. V * fl_pow u (int j - int i) * fl_pow d (int i)) [0..<nat (n + 1)])
       [0..<nat (n + 1)]"

text \<open>Line 126: the exercise lattice.\<close>

definition exercise_lattice :: "lattice \<Rightarrow> fl \<Rightarrow> int \<Rightarrow> lattice" where
  "exercise_lattice A K n =
     map (\<lambda>i. map (\<lambda>j. py_max (cell A i j - K) 0) [0..<nat (n + 1)]) [0..<nat (n + 1)]"

text \<open>Lines 128 to 131: the zero lattice and the terminal column.\<close>

definition zero_lattice :: "int \<Rightarrow> lattice" where
  "zero_lattice n = replicate (nat (n + 1)) (replicate (nat (n + 1)) (Fin 0))"

definition terminal_boundary :: "lattice \<Rightarrow> int \<Rightarrow> lattice \<Rightarrow> lattice" where
  "terminal_boundary N n C =
     foldl (\<lambda>C i. set_cell C i (nat n) (cell N i (nat n))) C [0..<nat (n + 1)]"

text \<open>Line 133.\<close>

definition discount_factor :: "fl \<Rightarrow> fl \<Rightarrow> fl" where
  "discount_factor r dt = fl_exp (- r * dt)"

text \<open>
  Lines 137 to 146: the cost-of-delay schedule. \<open>deltas_manual\<close> is \<open>None\<close> or a
  list; it is used only when its length is exactly \<open>n\<close>.
\<close>

definition auto_deltas :: "fl \<Rightarrow> int \<Rightarrow> fl list" where
  "auto_deltas delta n =
     (if 0 < n \<and> 0 < delta then
        (let g = fl_powr (Fin 1 / delta) (Fin (1 / real_of_int n)) - 1
         in (map (\<lambda>t. delta * fl_pow (1 + g) (int t)) [0..<nat (n + 1)])[nat n := Fin 1])
      else if n = 0 then [delta]
      else replicate (nat (n + 1)) (Fin 0))"

definition delta_schedule :: "fl \<Rightarrow> int \<Rightarrow> fl list option \<Rightarrow> fl list" where
  "delta_schedule delta n deltas_manual =
     (case deltas_manual of
        Some xs \<Rightarrow> if int (length xs) = n then xs @ [Fin 1] else auto_deltas delta n
      | None \<Rightarrow> auto_deltas delta n)"

text \<open>Lines 148 and 149: the probabilities, one per period of \<^verbatim>\<open>times\<close> (here \<open>ts\<close>).\<close>

definition probabilities :: "fl \<Rightarrow> fl list \<Rightarrow> fl \<Rightarrow> fl \<Rightarrow> fl \<Rightarrow> nat list \<Rightarrow> fl list" where
  "probabilities r deltas dt u d ts =
     map (\<lambda>t. if fl_ne u d then (fl_exp ((r - deltas ! t) * dt) - d) / (u - d) else 0) ts"

text \<open>
  Lines 151 to 157: backward induction. The inner loop writes column \<open>j\<close> from top to
  bottom, reading column \<open>j + 1\<close>; the outer loop runs \<open>j\<close> from \<open>n - 1\<close> down to 0.
\<close>

definition induction_step :: "lattice \<Rightarrow> fl \<Rightarrow> fl \<Rightarrow> nat \<Rightarrow> lattice \<Rightarrow> nat \<Rightarrow> lattice" where
  "induction_step N discount p j C i =
     (let intrinsic_value = cell N i j;
          hold = discount * (p * cell C i (j + 1) + (1 - p) * cell C (i + 1) (j + 1))
      in set_cell C i j (py_max hold intrinsic_value))"

definition induction_column :: "lattice \<Rightarrow> fl \<Rightarrow> fl list \<Rightarrow> lattice \<Rightarrow> nat \<Rightarrow> lattice" where
  "induction_column N discount ps_for_induction C j =
     foldl (induction_step N discount (ps_for_induction ! j) j) C [0..<j + 1]"

definition backward_induction :: "lattice \<Rightarrow> fl \<Rightarrow> fl list \<Rightarrow> int \<Rightarrow> lattice \<Rightarrow> lattice" where
  "backward_induction N discount ps_for_induction n C =
     foldl (induction_column N discount ps_for_induction) C (rev [0..<nat n])"

text \<open>
  The six values \<^verbatim>\<open>calculate_lattices\<close> returns. \<^verbatim>\<open>T / n\<close> raises
  \<^verbatim>\<open>ZeroDivisionError\<close> when \<open>n = 0\<close>; nothing else in the function raises. For a
  negative \<open>n\<close> every \<^verbatim>\<open>range\<close> is empty and so is every list returned.
\<close>

record lattices =
  lat_A :: lattice
  lat_N :: lattice
  lat_C :: lattice
  lat_times :: "nat list"
  lat_deltas :: "fl list"
  lat_ps :: "fl list"

definition calculate_lattices ::
  "fl \<Rightarrow> fl \<Rightarrow> fl \<Rightarrow> fl \<Rightarrow> fl \<Rightarrow> fl \<Rightarrow> int \<Rightarrow> fl list option \<Rightarrow> py_error + lattices" where
  "calculate_lattices V K T sigma delta r n deltas_manual =
     (if n = 0 then Inl ZeroDivisionError
      else
        let dt = time_step T n;
            u = up_factor sigma dt;
            d = down_factor u;
            A = asset_lattice V u d n;
            N = exercise_lattice A K n;
            C = terminal_boundary N n (zero_lattice n);
            discount = discount_factor r dt;
            ts = [0..<nat (n + 1)];
            deltas = delta_schedule delta n deltas_manual;
            ps_for_export = probabilities r deltas dt u d ts;
            ps_for_induction = butlast ps_for_export;
            C = backward_induction N discount ps_for_induction n C
        in Inr \<lparr>lat_A = A, lat_N = N, lat_C = C, lat_times = ts,
                 lat_deltas = deltas, lat_ps = ps_for_export\<rparr>)"

section \<open>The sensitivity analysis\<close>

text \<open>Raising is modelled by the left summand; \<open>bind_err\<close> passes an exception on.\<close>

definition bind_err :: "'e + 'a \<Rightarrow> ('a \<Rightarrow> 'e + 'b) \<Rightarrow> 'e + 'b" where
  "bind_err m f = (case m of Inl e \<Rightarrow> Inl e | Inr x \<Rightarrow> f x)"

fun mapM_err :: "('a \<Rightarrow> 'e + 'b) \<Rightarrow> 'a list \<Rightarrow> 'e + 'b list" where
  "mapM_err f [] = Inr []"
| "mapM_err f (x # xs) =
     bind_err (f x) (\<lambda>y. bind_err (mapM_err f xs) (\<lambda>ys. Inr (y # ys)))"

text \<open>
  \<^verbatim>\<open>int(x)\<close> truncates towards zero and raises \<^verbatim>\<open>ValueError\<close> on \<open>NaN\<close>.
  \<^verbatim>\<open>round(x)\<close> rounds to the nearest integer, ties to the even one, and raises
  \<^verbatim>\<open>ValueError\<close> on \<open>NaN\<close>; \<^verbatim>\<open>round(x, k)\<close> returns a float and passes
  \<open>NaN\<close> on. On exact reals \<^verbatim>\<open>round(x, k)\<close> is the nearest multiple of
  \<open>10\<^sup>-\<^sup>k\<close>, ties to even.
\<close>

definition py_int :: "fl \<Rightarrow> py_error + int" where
  "py_int a = (case a of NaN \<Rightarrow> Inl ValueError
                | Fin x \<Rightarrow> Inr (if 0 \<le> x then \<lfloor>x\<rfloor> else \<lceil>x\<rceil>))"

definition round_half_even :: "real \<Rightarrow> int" where
  "round_half_even x =
     (let f = \<lfloor>x\<rfloor>; rest = x - of_int f
      in if rest < 1 / 2 then f
         else if 1 / 2 < rest then f + 1
         else if even f then f else f + 1)"

definition py_round :: "fl \<Rightarrow> py_error + int" where
  "py_round a = (case a of NaN \<Rightarrow> Inl ValueError | Fin x \<Rightarrow> Inr (round_half_even x))"

definition py_round_to :: "nat \<Rightarrow> fl \<Rightarrow> fl" where
  "py_round_to k a =
     (case a of NaN \<Rightarrow> NaN
      | Fin x \<Rightarrow> Fin (of_int (round_half_even (x * 10 ^ k)) / 10 ^ k))"

text \<open>\<^verbatim>\<open>C[0][0]\<close>, which raises \<^verbatim>\<open>IndexError\<close> on an empty lattice.\<close>

definition root_cell :: "lattice \<Rightarrow> py_error + fl" where
  "root_cell C = (case C of [] \<Rightarrow> Inl IndexError
                  | row # _ \<Rightarrow> (case row of [] \<Rightarrow> Inl IndexError | c # _ \<Rightarrow> Inr c))"

text \<open>
  Lines 165 to 167: \<^verbatim>\<open>get_C0\<close>. Its last parameter \<open>n\<close> is an integer at most
  call sites and the float \<^verbatim>\<open>new_T\<close> at one; the body never reads it.
\<close>

definition get_C0 :: "fl \<Rightarrow> fl \<Rightarrow> fl \<Rightarrow> fl \<Rightarrow> fl \<Rightarrow> fl \<Rightarrow> 'n \<Rightarrow> py_error + fl" where
  "get_C0 V K T sigma delta r n =
     bind_err (py_int T) (\<lambda>k.
       let new_n = max 1 k
       in bind_err (calculate_lattices V K T sigma delta r new_n None) (\<lambda>L.
            bind_err (root_cell (lat_C L)) (\<lambda>c. Inr (c / Fin 1000))))"

datatype param_name =
  Asset_Value | Volatility | Time_to_Maturity | Exercise_Cost | Cost_of_Delay | Risk_free_Rate

text \<open>Lines 174 to 181, in the insertion order of the dictionary.\<close>

definition params_to_test :: "param_name list" where
  "params_to_test =
     [Asset_Value, Volatility, Time_to_Maturity, Exercise_Cost, Cost_of_Delay, Risk_free_Rate]"

text \<open>Lines 187 to 199: one perturbed valuation.\<close>

definition perturbed_C0 ::
  "fl \<Rightarrow> fl \<Rightarrow> fl \<Rightarrow> fl \<Rightarrow> fl \<Rightarrow> fl \<Rightarrow> int \<Rightarrow> param_name \<Rightarrow> fl \<Rightarrow> py_error + fl" where
  "perturbed_C0 V K T sigma delta r n name factor =
     (case name of
        Asset_Value \<Rightarrow> get_C0 (V * factor) K T sigma delta r n
      | Volatility \<Rightarrow> get_C0 V K T (sigma * factor) delta r n
      | Time_to_Maturity \<Rightarrow> (let new_T = T * factor in get_C0 V K new_T sigma delta r new_T)
      | Exercise_Cost \<Rightarrow> get_C0 V (K * factor) T sigma delta r n
      | Cost_of_Delay \<Rightarrow> get_C0 V K T sigma (delta * factor) r n
      | Risk_free_Rate \<Rightarrow> get_C0 V K T sigma delta (r * factor) n)"

record tornado_entry =
  t_min :: fl
  t_max :: fl
  t_base_value :: fl

text \<open>Lines 213 to 220: the spider percentage of one parameter.\<close>

definition spider_percent :: "fl \<Rightarrow> fl \<Rightarrow> fl \<Rightarrow> fl" where
  "spider_percent base_option_value min_C max_C =
     (let percent_change =
            (if fl_eq base_option_value 0 then Fin 0
             else
               let abs_change = py_max \<bar>max_C - base_option_value\<bar> \<bar>min_C - base_option_value\<bar>
               in abs_change / base_option_value * Fin 100)
      in py_round_to 2 percent_change)"

text \<open>Lines 183 to 220: the body of the loop over the parameters.\<close>

definition tornado_spider ::
  "fl \<Rightarrow> fl \<Rightarrow> fl \<Rightarrow> fl \<Rightarrow> fl \<Rightarrow> fl \<Rightarrow> int \<Rightarrow> fl \<Rightarrow> param_name
     \<Rightarrow> py_error + (param_name \<times> tornado_entry \<times> fl)" where
  "tornado_spider V K T sigma delta r n base_option_value name =
     bind_err (mapM_err (perturbed_C0 V K T sigma delta r n name) [Fin (9 / 10), Fin (11 / 10)])
       (\<lambda>results.
          let min_C = py_min (results ! 0) (results ! 1);
              max_C = py_max (results ! 0) (results ! 1)
          in Inr (name,
                  \<lparr>t_min = min_C, t_max = max_C, t_base_value = base_option_value\<rparr>,
                  spider_percent base_option_value min_C max_C))"

text \<open>
  \<^verbatim>\<open>np.linspace(start, stop, 7)\<close>: \<open>k * step + start\<close> with
  \<open>step = (stop - start) / 6\<close>, the last point being \<open>stop\<close> itself.
\<close>

definition linspace7 :: "fl \<Rightarrow> fl \<Rightarrow> fl list" where
  "linspace7 start stop =
     (map (\<lambda>k. Fin (real k) * ((stop - start) / Fin 6) + start) [0..<7])[6 := stop]"

text \<open>
  A Python dictionary as an association list in insertion order; assigning to a key that
  is present replaces its value in place. The series labels of the two line charts are
  f-strings of a rounded number; the model keeps the number, which determines the label.
\<close>

fun dict_set :: "'k \<Rightarrow> 'v \<Rightarrow> ('k \<times> 'v) list \<Rightarrow> ('k \<times> 'v) list" where
  "dict_set k v [] = [(k, v)]"
| "dict_set k v (p # ps) = (if fst p = k then (k, v) # ps else p # dict_set k v ps)"

text \<open>Lines 222 to 231: the volatility sweep for three asset values.\<close>

definition sigma_v_series ::
  "fl \<Rightarrow> fl \<Rightarrow> fl \<Rightarrow> fl \<Rightarrow> fl \<Rightarrow> int \<Rightarrow> fl list \<Rightarrow> fl \<Rightarrow> py_error + (int \<times> fl list)" where
  "sigma_v_series V K T delta r n sigma_line_range factor =
     (let series_v = V * factor
      in bind_err (py_round (series_v / Fin 1000)) (\<lambda>series_name.
           bind_err
             (mapM_err (\<lambda>s. bind_err (get_C0 series_v K T s delta r n)
                               (\<lambda>c. Inr (py_round_to 2 c))) sigma_line_range)
             (\<lambda>c_values. Inr (series_name, c_values))))"

text \<open>Lines 233 to 241: the volatility sweep for three costs of delay.\<close>

definition sigma_delta_series ::
  "fl \<Rightarrow> fl \<Rightarrow> fl \<Rightarrow> fl \<Rightarrow> fl \<Rightarrow> int \<Rightarrow> fl list \<Rightarrow> fl \<Rightarrow> py_error + (fl \<times> fl list)" where
  "sigma_delta_series V K T delta r n sigma_line_range factor =
     (let series_delta = delta * factor;
          series_name = py_round_to 1 (series_delta * Fin 100)
      in bind_err
           (mapM_err (\<lambda>s. bind_err (get_C0 V K T s series_delta r n)
                             (\<lambda>c. Inr (py_round_to 2 c))) sigma_line_range)
           (\<lambda>c_values. Inr (series_name, c_values)))"

record base_params =
  bp_V_calc :: fl
  bp_K_calc :: fl
  bp_T :: fl
  bp_sigma :: fl
  bp_delta_val :: fl
  bp_r :: fl
  bp_delta_t0 :: fl
  bp_deltas_manual :: "fl list option"

record sensitivity_report =
  tornado :: "(param_name \<times> tornado_entry) list"
  spider :: "(param_name \<times> fl) list"
  line_chart_v_sigma_x_labels :: "fl list"
  line_chart_v_sigma_data :: "(int \<times> fl list) list"
  line_chart_delta_sigma_x_labels :: "fl list"
  line_chart_delta_sigma_data :: "(fl \<times> fl list) list"
  base_option_value :: fl

text \<open>Lines 161 to 255.\<close>

definition calculate_sensitivity_data :: "base_params \<Rightarrow> int \<Rightarrow> py_error + sensitivity_report" where
  "calculate_sensitivity_data bp n =
     (let V = bp_V_calc bp; K = bp_K_calc bp; T = bp_T bp;
          sigma = bp_sigma bp; delta = bp_delta_val bp; r = bp_r bp
      in bind_err (get_C0 V K T sigma delta r n) (\<lambda>base.
         bind_err (mapM_err (tornado_spider V K T sigma delta r n base) params_to_test) (\<lambda>rows.
           let sigma_line_range = linspace7 (sigma * Fin (1 / 2)) (sigma * Fin (3 / 2))
           in bind_err (mapM_err (sigma_v_series V K T delta r n sigma_line_range)
                          [Fin (8 / 10), Fin 1, Fin (12 / 10)]) (\<lambda>v_series.
              bind_err (mapM_err (sigma_delta_series V K T delta r n sigma_line_range)
                          [Fin (1 / 2), Fin 1, Fin (3 / 2)]) (\<lambda>delta_series.
                Inr \<lparr>tornado = map (\<lambda>(name, t, s). (name, t)) rows,
                     spider = map (\<lambda>(name, t, s). (name, s)) rows,
                     line_chart_v_sigma_x_labels = map (py_round_to 3) sigma_line_range,
                     line_chart_v_sigma_data =
                       foldl (\<lambda>dict (k, v). dict_set k v dict) [] v_series,
                     line_chart_delta_sigma_x_labels = map (py_round_to 3) sigma_line_range,
                     line_chart_delta_sigma_data =
                       foldl (\<lambda>dict (k, v). dict_set k v dict) [] delta_series,
                     base_option_value = base\<rparr>)))))"

section \<open>The route \<^verbatim>\<open>/calculate\<close>\<close>

text \<open>
  The body of the request is a JSON object, read here as a partial map from keys to JSON
  values. \<^verbatim>\<open>float(x)\<close> accepts a number, a boolean or a string that spells a
  number; Python's parser of such strings and \<^verbatim>\<open>str.strip\<close> are parameters
  (\<open>float_of_str\<close>, which returns \<open>None\<close> where Python raises
  \<^verbatim>\<open>ValueError\<close>, and \<open>strip\<close>) of every definition that needs them.
  The login check, the persistence of the calculation (lines 556 to 576) and the
  spreadsheet writer are not part of the model: the response of the model is the one
  the route gives once those succeed.
\<close>

datatype json =
  JNull | JBool bool | JNum fl | JStr string | JArr "json list" | JObj "(string \<times> json) list"

type_synonym request_data = "string \<rightharpoonup> json"

definition item :: "request_data \<Rightarrow> string \<Rightarrow> py_error + json" where
  "item data key = (case data key of None \<Rightarrow> Inl KeyError | Some v \<Rightarrow> Inr v)"

definition py_float :: "(string \<Rightarrow> fl option) \<Rightarrow> json \<Rightarrow> py_error + fl" where
  "py_float float_of_str v =
     (case v of
        JNum x \<Rightarrow> Inr x
      | JBool b \<Rightarrow> Inr (if b then Fin 1 else Fin 0)
      | JStr s \<Rightarrow> (case float_of_str s of None \<Rightarrow> Inl ValueError | Some x \<Rightarrow> Inr x)
      | _ \<Rightarrow> Inl TypeError)"

definition truthy :: "json \<Rightarrow> bool" where
  "truthy v =
     (case v of
        JNull \<Rightarrow> False
      | JBool b \<Rightarrow> b
      | JNum x \<Rightarrow> fl_ne x 0
      | JStr s \<Rightarrow> s \<noteq> []
      | JArr xs \<Rightarrow> xs \<noteq> []
      | JObj kvs \<Rightarrow> kvs \<noteq> [])"

text \<open>\<^verbatim>\<open>s.split(',')\<close>: the pieces between the commas, empty pieces included.\<close>

fun split_comma :: "string \<Rightarrow> string list" where
  "split_comma [] = [[]]"
| "split_comma (c # cs) =
     (if c = CHR '','' then [] # split_comma cs
      else (case split_comma cs of w # ws \<Rightarrow> (c # w) # ws | [] \<Rightarrow> [[c]]))"

datatype response =
  Bad_Request string
| Server_Error py_error
| Json_Result fl "int list list" "int list list" "int list list" sensitivity_report
| Excel_File bool "fl list" "nat list" "fl list" "fl list"
    "int list list" "int list list" "int list list"

text \<open>
  \<open>Bad_Request msg\<close> is the status 400 with the message; \<open>Server_Error e\<close> is the
  status 500 of the outer handler, which reports the exception \<open>e\<close> it caught.
  \<open>Json_Result\<close> carries the rounded initial option value, the three rescaled lattices
  and the sensitivity report. \<open>Excel_File\<close> carries what is handed to the
  writer: whether the label is the one of auto mode, the seven parameter values, the
  three columns of the time table and the three rescaled lattices.
\<close>

definition raised :: "py_error + 'a \<Rightarrow> response + 'a" where
  "raised m = (case m of Inl e \<Rightarrow> Inl (Server_Error e) | Inr x \<Rightarrow> Inr x)"

text \<open>
  Lines 497 to 503: the inner \<^verbatim>\<open>try\<close>. A \<^verbatim>\<open>ValueError\<close> of \<^verbatim>\<open>float\<close>
  is answered with status 400. A truthy value that is not a string has no
  \<^verbatim>\<open>split\<close>: the \<^verbatim>\<open>AttributeError\<close> is not caught here.
\<close>

definition parse_manual ::
  "(string \<Rightarrow> fl option) \<Rightarrow> (string \<Rightarrow> string) \<Rightarrow> json \<Rightarrow> response + fl list" where
  "parse_manual float_of_str strip delta_input =
     (if truthy delta_input then
        (case delta_input of
           JStr s \<Rightarrow>
             (case mapM_err (\<lambda>d. py_float float_of_str (JStr (strip d))) (split_comma s) of
                Inl e \<Rightarrow> Inl (Bad_Request ''Manual Cost of Delay values must be valid numbers.'')
              | Inr xs \<Rightarrow> Inr xs)
         | _ \<Rightarrow> Inl (Server_Error AttributeError))
      else Inr [])"

text \<open>Lines 489 to 506: \<open>delta_val\<close> and \<open>deltas_manual\<close>.\<close>

definition parse_delta ::
  "(string \<Rightarrow> fl option) \<Rightarrow> (string \<Rightarrow> string) \<Rightarrow> request_data
     \<Rightarrow> response + (bool \<times> fl \<times> fl list option)" where
  "parse_delta float_of_str strip data =
     (let delta_mode = (case data ''delta-mode'' of None \<Rightarrow> JStr ''auto'' | Some v \<Rightarrow> v)
      in bind_err (raised (item data ''delta'')) (\<lambda>delta_input.
           if delta_mode = JStr ''auto'' then
             bind_err (raised (py_float float_of_str delta_input)) (\<lambda>delta_val.
               Inr (True, delta_val, None))
           else
             bind_err (parse_manual float_of_str strip delta_input) (\<lambda>deltas_manual.
               let delta_val = (case deltas_manual of [] \<Rightarrow> Fin 0 | x # _ \<Rightarrow> x)
               in Inr (False, delta_val, Some deltas_manual))))"

text \<open>Lines 514 to 516: the period count of the main valuation.\<close>

definition period_count :: "fl \<Rightarrow> py_error + int" where
  "period_count T = bind_err (py_int T) (\<lambda>n. Inr (if n = 0 then 1 else n))"

record parsed_request =
  pr_V_input_thousands :: fl
  pr_K_input_thousands :: fl
  pr_auto :: bool
  pr_delta_val :: fl
  pr_deltas_manual :: "fl list option"
  pr_T :: fl
  pr_sigma :: fl
  pr_r :: fl
  pr_n :: int

text \<open>Lines 485 to 516, in the order of the statements.\<close>

definition parse_request ::
  "(string \<Rightarrow> fl option) \<Rightarrow> (string \<Rightarrow> string) \<Rightarrow> request_data
     \<Rightarrow> response + parsed_request" where
  "parse_request float_of_str strip data =
     bind_err (raised (bind_err (item data ''V'') (py_float float_of_str))) (\<lambda>V_input_thousands.
     bind_err (raised (bind_err (item data ''K'') (py_float float_of_str))) (\<lambda>K_input_thousands.
     bind_err (parse_delta float_of_str strip data) (\<lambda>(auto, delta_val, deltas_manual).
     bind_err (raised (bind_err (item data ''T'') (py_float float_of_str))) (\<lambda>T.
     bind_err (raised (bind_err (item data ''sigma'') (py_float float_of_str))) (\<lambda>sigma.
     bind_err (raised (bind_err (item data ''r'') (py_float float_of_str))) (\<lambda>r.
     bind_err (raised (period_count T)) (\<lambda>n.
       Inr \<lparr>pr_V_input_thousands = V_input_thousands,
            pr_K_input_thousands = K_input_thousands,
            pr_auto = auto, pr_delta_val = delta_val, pr_deltas_manual = deltas_manual,
            pr_T = T, pr_sigma = sigma, pr_r = r, pr_n = n\<rparr>)))))))"

text \<open>Lines 539 to 541: \<^verbatim>\<open>int(round(val / 1000))\<close> on every cell.\<close>

definition thousands :: "lattice \<Rightarrow> py_error + int list list" where
  "thousands L = mapM_err (mapM_err (\<lambda>val. py_round (val / Fin 1000))) L"

text \<open>Lines 508 to 662, after the inputs are read.\<close>

definition valuation_response :: "request_data \<Rightarrow> parsed_request \<Rightarrow> response + response" where
  "valuation_response data pr =
     (let V_calc = pr_V_input_thousands pr * Fin 1000;
          K_calc = pr_K_input_thousands pr * Fin 1000;
          T = pr_T pr; sigma = pr_sigma pr; r = pr_r pr; n = pr_n pr;
          delta_val = pr_delta_val pr; deltas_manual = pr_deltas_manual pr
      in bind_err (raised (calculate_lattices V_calc K_calc T sigma delta_val r n deltas_manual))
           (\<lambda>L.
         bind_err (raised (root_cell (lat_C L))) (\<lambda>initial_option_value_actual_units.
           let initial_option_value_thousands = initial_option_value_actual_units / Fin 1000
           in bind_err (raised (thousands (lat_A L))) (\<lambda>A_thousands.
              bind_err (raised (thousands (lat_N L))) (\<lambda>N_thousands.
              bind_err (raised (thousands (lat_C L))) (\<lambda>C_thousands.
              bind_err (raised (calculate_sensitivity_data
                  \<lparr>bp_V_calc = V_calc, bp_K_calc = K_calc, bp_T = T, bp_sigma = sigma,
                   bp_delta_val = delta_val, bp_r = r, bp_delta_t0 = delta_val,
                   bp_deltas_manual = deltas_manual\<rparr> n)) (\<lambda>sensitivity_data.
                if data ''export'' = Some (JStr ''excel'') then
                  Inr (Excel_File (pr_auto pr)
                         [pr_V_input_thousands pr, pr_K_input_thousands pr, T, sigma,
                          delta_val, r, initial_option_value_thousands]
                         (lat_times L) (lat_deltas L) (lat_ps L)
                         A_thousands N_thousands C_thousands)
                else
                  Inr (Json_Result (py_round_to 4 initial_option_value_thousands)
                         A_thousands N_thousands C_thousands sensitivity_data))))))))"

text \<open>The route: whatever the body returns or raises is the response.\<close>

definition calculate ::
  "(string \<Rightarrow> fl option) \<Rightarrow> (string \<Rightarrow> string) \<Rightarrow> request_data \<Rightarrow> response" where
  "calculate float_of_str strip data =
     (case bind_err (parse_request float_of_str strip data) (valuation_response data) of
        Inl resp \<Rightarrow> resp
      | Inr resp \<Rightarrow> resp)"

section \<open>Auxiliary notions\<close>

text \<open>
  A lattice is square of side \<open>m\<close> when it has \<open>m\<close> rows of \<open>m\<close> cells each.
  \<open>columns_from\<close> is the state of the outer loop of the backward induction once the
  columns \<open>n - 1\<close> down to \<open>k\<close> have been written.
\<close>

definition square :: "nat \<Rightarrow> lattice \<Rightarrow> bool" where
  "square m L = (length L = m \<and> (\<forall>row \<in> set L. length row = m))"

definition columns_from :: "lattice \<Rightarrow> fl \<Rightarrow> fl list \<Rightarrow> nat \<Rightarrow> nat \<Rightarrow> lattice \<Rightarrow> lattice" where
  "columns_from N disc ps k n C = foldr (\<lambda>j C. induction_column N disc ps C j) [k..<n] C"

text \<open>
  \<open>valuation_with\<close> is the body of \<^verbatim>\<open>get_C0\<close> with the period count as an
  explicit argument: the valuation over \<open>k\<close> periods, divided by 1000. \<open>the_C0\<close> names
  the value \<^verbatim>\<open>get_C0\<close> returns, for the proofs.
\<close>

definition valuation_with :: "fl \<Rightarrow> fl \<Rightarrow> fl \<Rightarrow> fl \<Rightarrow> fl \<Rightarrow> fl \<Rightarrow> int \<Rightarrow> py_error + fl" where
  "valuation_with V K T sigma delta r k =
     bind_err (calculate_lattices V K T sigma delta r k None) (\<lambda>L.
       bind_err (root_cell (lat_C L)) (\<lambda>c. Inr (c / Fin 1000)))"

definition the_C0 :: "fl \<Rightarrow> fl \<Rightarrow> fl \<Rightarrow> fl \<Rightarrow> fl \<Rightarrow> fl \<Rightarrow> fl" where
  "the_C0 V K T sigma delta r = projr (get_C0 V K T sigma delta r ())"

text \<open>
  Example requests for the route. \<open>example_float\<close> stands for \<^verbatim>\<open>float\<close> on
  strings: it agrees with Python on the strings of the examples (\<^verbatim>\<open>'1'\<close> and
  \<^verbatim>\<open>'2'\<close> are numbers, \<^verbatim>\<open>'x'\<close> and \<^verbatim>\<open>'abc'\<close> are not), as does the
  identity for \<^verbatim>\<open>strip\<close>.
\<close>

definition example_float :: "string \<Rightarrow> fl option" where
  "example_float s =
     (if s = ''1'' then Some (Fin 1) else if s = ''2'' then Some (Fin 2) else None)"

definition request_negative_T :: request_data where
  "request_negative_T =
     [''V'' \<mapsto> JNum (Fin 1), ''K'' \<mapsto> JNum (Fin 1), ''delta'' \<mapsto> JNum (Fin 0),
      ''T'' \<mapsto> JNum (Fin (- 2)), ''sigma'' \<mapsto> JNum (Fin 0), ''r'' \<mapsto> JNum (Fin 0)]"

definition request_bad_V :: request_data where
  "request_bad_V =
     [''V'' \<mapsto> JStr ''abc'', ''K'' \<mapsto> JNum (Fin 1), ''delta-mode'' \<mapsto> JStr ''manual'',
      ''delta'' \<mapsto> JStr ''1,x'', ''T'' \<mapsto> JNum (Fin 1), ''sigma'' \<mapsto> JNum (Fin 0),
      ''r'' \<mapsto> JNum (Fin 0)]"

definition request_bad_entry :: request_data where
  "request_bad_entry =
     [''V'' \<mapsto> JNum (Fin 1), ''K'' \<mapsto> JNum (Fin 1), ''delta-mode'' \<mapsto> JStr ''manual'',
      ''delta'' \<mapsto> JStr ''1,x'', ''T'' \<mapsto> JNum (Fin 1), ''sigma'' \<mapsto> JNum (Fin 0),
      ''r'' \<mapsto> JNum (Fin 0)]"

definition request_short_manual :: request_data where
  "request_short_manual =
     [''V'' \<mapsto> JNum (Fin 1), ''K'' \<mapsto> JNum (Fin 1), ''delta-mode'' \<mapsto> JStr ''manual'',
      ''delta'' \<mapsto> JStr ''1'', ''T'' \<mapsto> JNum (Fin 2), ''sigma'' \<mapsto> JNum (Fin 0),
      ''r'' \<mapsto> JNum (Fin 0)]"

section \<open>Basic facts about the numbers\<close>

lemma fl_arith [simp]:
  "Fin x + Fin y = Fin (x + y)" "NaN + a = NaN" "a + NaN = NaN"
  "Fin x - Fin y = Fin (x - y)" "NaN - a = NaN" "a - NaN = NaN"
  "Fin x * Fin y = Fin (x * y)" "NaN * a = NaN" "a * NaN = NaN"
  "Fin x / Fin y = (if y = 0 then NaN else Fin (x / y))" "NaN / a = NaN" "a / NaN = NaN"
  "- Fin x = Fin (- x)" "- NaN = NaN"
  "\<bar>Fin x\<bar> = Fin \<bar>x\<bar>" "\<bar>NaN\<bar> = NaN"
  by (simp_all add: plus_fl_def minus_fl_def times_fl_def divide_fl_def uminus_fl_def
      abs_fl_def split: fl.splits)

lemma fl_consts [simp]: "(0::fl) = Fin 0" "(1::fl) = Fin 1"
  by (simp_all add: zero_fl_def one_fl_def)

lemma fl_order [simp]:
  "(Fin x \<le> Fin y) = (x \<le> y)" "(NaN \<le> a) = False" "(a \<le> NaN) = False"
  "(Fin x < Fin y) = (x < y)" "(NaN < a) = False" "(a < NaN) = False"
  by (simp_all add: less_eq_fl_def less_fl_def split: fl.splits)

lemma fl_ne_simps [simp]:
  "fl_ne (Fin x) (Fin y) = (x \<noteq> y)" "fl_ne NaN a" "fl_ne a NaN"
  "fl_eq (Fin x) (Fin y) = (x = y)" "\<not> fl_eq NaN a" "\<not> fl_eq a NaN"
  by (simp_all add: fl_ne_def fl_eq_def split: fl.splits)

lemma fl_fun_simps [simp]:
  "fl_exp (Fin x) = Fin (exp x)" "fl_exp NaN = NaN"
  "fl_sqrt (Fin x) = (if x < 0 then NaN else Fin (sqrt x))" "fl_sqrt NaN = NaN"
  "fl_pow a 0 = Fin 1"
  "k \<noteq> 0 \<Longrightarrow> fl_pow (Fin x) k = Fin (x powi k)"
  "k \<noteq> 0 \<Longrightarrow> fl_pow NaN k = NaN"
  "fl_powr (Fin x) (Fin y) = Fin (x powr y)"
  by (simp_all add: fl_exp_def fl_sqrt_def fl_pow_def fl_powr_def)

lemma py_max_simps [simp]:
  "py_max (Fin x) (Fin y) = Fin (max x y)" "py_max NaN a = NaN" "py_max a NaN = a"
  "py_min (Fin x) (Fin y) = Fin (min x y)" "py_min NaN a = NaN" "py_min a NaN = a"
  by (auto simp: py_max_def py_min_def max_def min_def)

lemma bind_err_simps [simp]:
  "bind_err (Inl e) f = Inl e" "bind_err (Inr x) f = f x"
  by (simp_all add: bind_err_def)

lemma upt_2: "[0..<2] = [0, Suc 0]"
  by (simp add: upt_rec)

lemma upt_3: "[0..<3] = [0, Suc 0, Suc (Suc 0)]"
  by (simp add: upt_rec)

section \<open>The cost-of-delay schedule\<close>

lemma calculate_lattices_deltas:
  "n \<noteq> 0 \<Longrightarrow> \<exists>L. calculate_lattices V K T sigma delta r n dm = Inr L \<and>
     lat_deltas L = delta_schedule delta n dm"
  by (simp add: calculate_lattices_def Let_def)

text \<open>
  Claim C3. For every \<open>n \<ge> 1\<close>: (a) a manual sequence of exactly \<open>n\<close> entries is
  returned with the terminal value 1 appended, so the schedule has \<open>n + 1\<close> entries and
  its entry \<open>n\<close> is 1; (b) when no manual sequence applies (none is given, or its length
  is not \<open>n\<close>) and the scalar cost of delay is 0, the schedule returned is all zeros, the
  terminal entry included. The two terminal values differ.
\<close>

theorem terminal_delta_asymmetry:
  "1 \<le> n \<Longrightarrow>
     (int (length xs) = n \<longrightarrow>
        (\<exists>L. calculate_lattices V K T sigma delta r n (Some xs) = Inr L \<and>
           lat_deltas L = xs @ [Fin 1] \<and> length (lat_deltas L) = nat (n + 1) \<and>
           lat_deltas L ! nat n = Fin 1)) \<and>
     ((\<forall>ys. dm = Some ys \<longrightarrow> int (length ys) \<noteq> n) \<longrightarrow>
        (\<exists>L. calculate_lattices V K T sigma (Fin 0) r n dm = Inr L \<and>
           lat_deltas L = replicate (nat (n + 1)) (Fin 0) \<and>
           lat_deltas L ! nat n = Fin 0 \<and> lat_deltas L ! nat n \<noteq> Fin 1))"
proof (intro conjI impI)
  assume n: "1 \<le> n" and len: "int (length xs) = n"
  from n obtain L where L: "calculate_lattices V K T sigma delta r n (Some xs) = Inr L"
    "lat_deltas L = delta_schedule delta n (Some xs)"
    using calculate_lattices_deltas [of n V K T sigma delta r "Some xs"] by auto
  from len have "nat n = length xs" by simp
  with L len n show "\<exists>L. calculate_lattices V K T sigma delta r n (Some xs) = Inr L \<and>
      lat_deltas L = xs @ [Fin 1] \<and> length (lat_deltas L) = nat (n + 1) \<and>
      lat_deltas L ! nat n = Fin 1"
    by (simp add: delta_schedule_def nat_add_distrib)
next
  assume n: "1 \<le> n" and no: "\<forall>ys. dm = Some ys \<longrightarrow> int (length ys) \<noteq> n"
  from n obtain L where L: "calculate_lattices V K T sigma (Fin 0) r n dm = Inr L"
    "lat_deltas L = delta_schedule (Fin 0) n dm"
    using calculate_lattices_deltas [of n V K T sigma "Fin 0" r dm] by auto
  from no n have "delta_schedule (Fin 0) n dm = replicate (nat (n + 1)) (Fin 0)"
    by (cases dm) (simp_all add: delta_schedule_def auto_deltas_def)
  with L n show "\<exists>L. calculate_lattices V K T sigma (Fin 0) r n dm = Inr L \<and>
      lat_deltas L = replicate (nat (n + 1)) (Fin 0) \<and>
      lat_deltas L ! nat n = Fin 0 \<and> lat_deltas L ! nat n \<noteq> Fin 1"
    by simp
qed

theorem terminal_delta_asymmetry_witness:
  "(\<exists>L. calculate_lattices (Fin 1000) (Fin 900) (Fin 2) (Fin 0) (Fin 0) (Fin 0) 2
           (Some [Fin (1 / 4), Fin (1 / 2)]) = Inr L \<and>
        lat_deltas L = [Fin (1 / 4), Fin (1 / 2), Fin 1] \<and> lat_deltas L ! 2 = Fin 1) \<and>
   (\<exists>L. calculate_lattices (Fin 1000) (Fin 900) (Fin 2) (Fin 0) (Fin 0) (Fin 0) 2
           (Some [Fin (1 / 4)]) = Inr L \<and>
        lat_deltas L = [Fin 0, Fin 0, Fin 0] \<and> lat_deltas L ! 2 = Fin 0)"
  using terminal_delta_asymmetry [of 2 "[Fin (1 / 4), Fin (1 / 2)]" "Fin 1000" "Fin 900"
      "Fin 2" "Fin 0" "Fin 0" "Fin 0" "Some [Fin (1 / 4)]"]
  by (auto simp: numeral_3_eq_3)

section \<open>The worked scenario\<close>

text \<open>
  Claim C5. For \<open>V = 1000\<close>, \<open>K = 900\<close>, \<open>T = 1\<close>, \<open>sigma = 0\<close>, the scalar cost of
  delay 0 in auto mode and \<open>r = 0\<close> the period count is 1, \<open>dt = 1\<close>, \<open>u = d = 1\<close>,
  the discount factor is 1, every cell of the asset lattice is 1000 and of the exercise
  lattice 100, both probabilities are the fallback 0, \<open>C[0][1] = C[1][1] = 100\<close>, the
  root \<open>C[0][0]\<close> is 100, and the root divided by 1000 is 0.1.
\<close>

theorem worked_scenario:
  "period_count (Fin 1) = Inr 1 \<and>
   time_step (Fin 1) 1 = Fin 1 \<and>
   up_factor (Fin 0) (Fin 1) = Fin 1 \<and>
   down_factor (Fin 1) = Fin 1 \<and>
   discount_factor (Fin 0) (Fin 1) = Fin 1 \<and>
   calculate_lattices (Fin 1000) (Fin 900) (Fin 1) (Fin 0) (Fin 0) (Fin 0) 1 None =
     Inr \<lparr>lat_A = [[Fin 1000, Fin 1000], [Fin 1000, Fin 1000]],
          lat_N = [[Fin 100, Fin 100], [Fin 100, Fin 100]],
          lat_C = [[Fin 100, Fin 100], [Fin 0, Fin 100]],
          lat_times = [0, 1], lat_deltas = [Fin 0, Fin 0], lat_ps = [Fin 0, Fin 0]\<rparr> \<and>
   get_C0 (Fin 1000) (Fin 900) (Fin 1) (Fin 0) (Fin 0) (Fin 0) (1::int) = Inr (Fin (1 / 10))"
proof -
  have lat: "calculate_lattices (Fin 1000) (Fin 900) (Fin 1) (Fin 0) (Fin 0) (Fin 0) 1 None =
     Inr \<lparr>lat_A = [[Fin 1000, Fin 1000], [Fin 1000, Fin 1000]],
          lat_N = [[Fin 100, Fin 100], [Fin 100, Fin 100]],
          lat_C = [[Fin 100, Fin 100], [Fin 0, Fin 100]],
          lat_times = [0, 1], lat_deltas = [Fin 0, Fin 0], lat_ps = [Fin 0, Fin 0]\<rparr>"
    by (simp add: calculate_lattices_def time_step_def up_factor_def down_factor_def
        asset_lattice_def exercise_lattice_def terminal_boundary_def zero_lattice_def
        discount_factor_def delta_schedule_def auto_deltas_def probabilities_def
        backward_induction_def induction_column_def induction_step_def cell_def set_cell_def
        upt_2 Let_def numeral_2_eq_2)
  have n: "period_count (Fin 1) = Inr 1"
    by (simp add: period_count_def py_int_def)
  have root: "get_C0 (Fin 1000) (Fin 900) (Fin 1) (Fin 0) (Fin 0) (Fin 0) (1::int) =
      Inr (Fin (1 / 10))"
    by (simp add: get_C0_def py_int_def lat root_cell_def)
  show ?thesis
    using lat n root
    by (simp add: time_step_def up_factor_def down_factor_def discount_factor_def)
qed

section \<open>The backward induction\<close>

lemma square_nth: "square m L \<Longrightarrow> i < m \<Longrightarrow> length (L ! i) = m"
  by (simp add: square_def)

lemma square_set_cell: "square m L \<Longrightarrow> square m (set_cell L i j v)"
proof -
  assume sq: "square m L"
  show ?thesis
  proof (cases "i < m")
    case True
    with sq have "length ((L ! i)[j := v]) = m" by (simp add: square_nth)
    moreover have "set (L[i := (L ! i)[j := v]]) \<subseteq> insert ((L ! i)[j := v]) (set L)"
      by (rule set_update_subset_insert)
    ultimately show ?thesis using sq by (auto simp: square_def set_cell_def)
  next
    case False
    with sq show ?thesis by (simp add: square_def set_cell_def list_update_beyond)
  qed
qed

lemma cell_set_cell:
  "square m L \<Longrightarrow> i < m \<Longrightarrow> j < m \<Longrightarrow>
     cell (set_cell L i j v) i' j' = (if i' = i \<and> j' = j then v else cell L i' j')"
  by (cases "i' = i") (auto simp: cell_def set_cell_def square_def)

lemma terminal_fill:
  "square m C \<Longrightarrow> k \<le> m \<Longrightarrow> c < m \<Longrightarrow>
     square m (foldl (\<lambda>C i. set_cell C i c (cell N i c)) C [0..<k]) \<and>
     (\<forall>i j. cell (foldl (\<lambda>C i. set_cell C i c (cell N i c)) C [0..<k]) i j =
        (if j = c \<and> i < k then cell N i c else cell C i j))"
proof (induction k)
  case 0
  then show ?case by simp
next
  case (Suc k)
  then show ?case
    by (auto simp: square_set_cell cell_set_cell)
qed

lemma column_fill:
  "square m C \<Longrightarrow> Suc j < m \<Longrightarrow> k \<le> Suc j \<Longrightarrow>
     square m (foldl (induction_step N disc p j) C [0..<k]) \<and>
     (\<forall>i' j'. cell (foldl (induction_step N disc p j) C [0..<k]) i' j' =
        (if j' = j \<and> i' < k
         then py_max (disc * (p * cell C i' (j + 1) + (1 - p) * cell C (i' + 1) (j + 1)))
                (cell N i' j)
         else cell C i' j'))"
proof (induction k)
  case 0
  then show ?case by simp
next
  case (Suc k)
  then show ?case
    by (auto simp: square_set_cell cell_set_cell induction_step_def Let_def)
qed


lemma column_cells:
  assumes "square m C" "Suc j < m"
  shows "square m (induction_column N disc ps C j)"
    and "cell (induction_column N disc ps C j) i' j' =
        (if j' = j \<and> i' \<le> j
         then py_max (disc * (ps ! j * cell C i' (j + 1) + (1 - ps ! j) * cell C (i' + 1) (j + 1)))
                (cell N i' j)
         else cell C i' j')"
  using column_fill [OF assms, of "Suc j" N disc "ps ! j"]
  by (auto simp: induction_column_def less_Suc_eq_le)

lemma columns_from_cells:
  assumes "square (Suc n) C1" "k \<le> n"
  shows "square (Suc n) (columns_from N disc ps k n C1) \<and>
     (\<forall>i j. cell (columns_from N disc ps k n C1) i j =
        (if k \<le> j \<and> j < n \<and> i \<le> j
         then py_max (disc * (ps ! j * cell (columns_from N disc ps k n C1) i (j + 1) +
                (1 - ps ! j) * cell (columns_from N disc ps k n C1) (i + 1) (j + 1)))
                (cell N i j)
         else cell C1 i j))"
  using \<open>k \<le> n\<close>
proof (induction k rule: inc_induct)
  case base
  from assms(1) show ?case by (auto simp: columns_from_def)
next
  case (step k)
  let ?S' = "columns_from N disc ps (Suc k) n C1"
  let ?S = "columns_from N disc ps k n C1"
  from step have sq': "square (Suc n) ?S'"
    and IH: "\<And>i j. cell ?S' i j =
        (if Suc k \<le> j \<and> j < n \<and> i \<le> j
         then py_max (disc * (ps ! j * cell ?S' i (j + 1) + (1 - ps ! j) * cell ?S' (i + 1) (j + 1)))
                (cell N i j)
         else cell C1 i j)"
    by blast+
  from step have S: "?S = induction_column N disc ps ?S' k"
    by (simp add: columns_from_def upt_conv_Cons)
  from step have kn: "Suc k < Suc n" by simp
  have sq: "square (Suc n) ?S"
    unfolding S by (rule column_cells(1) [OF sq' kn])
  have col: "\<And>i j. cell ?S i j =
        (if j = k \<and> i \<le> k
         then py_max (disc * (ps ! k * cell ?S' i (k + 1) + (1 - ps ! k) * cell ?S' (i + 1) (k + 1)))
                (cell N i k)
         else cell ?S' i j)"
    unfolding S by (rule column_cells(2) [OF sq' kn])
  have later: "\<And>i j. k < j \<Longrightarrow> cell ?S i j = cell ?S' i j"
    by (simp add: col)
  show ?case
  proof (intro conjI allI)
    show "square (Suc n) ?S" by (rule sq)
  next
    fix i j
    consider "j = k \<and> i \<le> k" | "k < j \<and> j < n \<and> i \<le> j" | "\<not> (k \<le> j \<and> j < n \<and> i \<le> j)"
      by linarith
    then show "cell ?S i j =
        (if k \<le> j \<and> j < n \<and> i \<le> j
         then py_max (disc * (ps ! j * cell ?S i (j + 1) + (1 - ps ! j) * cell ?S (i + 1) (j + 1)))
                (cell N i j)
         else cell C1 i j)"
    proof cases
      case 1
      with step show ?thesis by (simp add: col [of i k] later)
    next
      case 2
      then have "cell ?S i j = cell ?S' i j" by (simp add: later)
      with 2 show ?thesis by (simp add: IH [of i j] later)
    next
      case 3
      with step.hyps have "cell ?S i j = cell ?S' i j" by (auto simp: col)
      with 3 show ?thesis by (auto simp: IH [of i j])
    qed
  qed
qed

lemma backward_induction_columns:
  "backward_induction N disc ps n C = columns_from N disc ps 0 (nat n) C"
  by (simp add: backward_induction_def columns_from_def foldr_conv_foldl)


lemma calculate_lattices_returns:
  "n \<noteq> 0 \<Longrightarrow> \<exists>L. calculate_lattices V K T sigma delta r n dm = Inr L"
  by (simp add: calculate_lattices_def Let_def)

lemma calculate_lattices_fields:
  assumes "calculate_lattices V K T sigma delta r n dm = Inr L"
  shows "n \<noteq> 0"
    and "lat_A L = asset_lattice V (up_factor sigma (time_step T n))
           (down_factor (up_factor sigma (time_step T n))) n"
    and "lat_N L = exercise_lattice (lat_A L) K n"
    and "lat_times L = [0..<nat (n + 1)]"
    and "lat_deltas L = delta_schedule delta n dm"
    and "lat_ps L = probabilities r (lat_deltas L) (time_step T n)
           (up_factor sigma (time_step T n)) (down_factor (up_factor sigma (time_step T n)))
           [0..<nat (n + 1)]"
    and "lat_C L = backward_induction (lat_N L) (discount_factor r (time_step T n))
           (butlast (lat_ps L)) n (terminal_boundary (lat_N L) n (zero_lattice n))"
  using assms by (auto simp: calculate_lattices_def Let_def split: if_splits)

lemma square_zero_lattice: "square (nat (n + 1)) (zero_lattice n)"
  by (simp add: square_def zero_lattice_def)

lemma cell_zero_lattice:
  "i < nat (n + 1) \<Longrightarrow> j < nat (n + 1) \<Longrightarrow> cell (zero_lattice n) i j = Fin 0"
  by (simp add: cell_def zero_lattice_def)

lemma terminal_boundary_cells:
  assumes "0 \<le> n"
  shows "square (nat (n + 1)) (terminal_boundary N n (zero_lattice n))"
    and "cell (terminal_boundary N n (zero_lattice n)) i j =
       (if j = nat n \<and> i < nat (n + 1) then cell N i (nat n) else cell (zero_lattice n) i j)"
proof -
  from assms have "nat n < nat (n + 1)" by simp
  from terminal_fill [OF square_zero_lattice order_refl this, of N]
  show "square (nat (n + 1)) (terminal_boundary N n (zero_lattice n))"
    and "cell (terminal_boundary N n (zero_lattice n)) i j =
       (if j = nat n \<and> i < nat (n + 1) then cell N i (nat n) else cell (zero_lattice n) i j)"
    by (simp_all add: terminal_boundary_def)
qed

lemma option_cells:
  assumes L: "calculate_lattices V K T sigma delta r n dm = Inr L" and n: "1 \<le> n"
  shows "square (nat (n + 1)) (lat_C L)"
    and "j < nat n \<Longrightarrow> i \<le> j \<Longrightarrow>
       cell (lat_C L) i j =
         py_max (discount_factor r (time_step T n) *
                   (lat_ps L ! j * cell (lat_C L) i (j + 1) +
                    (1 - lat_ps L ! j) * cell (lat_C L) (i + 1) (j + 1)))
           (cell (lat_N L) i j)"
    and "i \<le> nat n \<Longrightarrow> cell (lat_C L) i (nat n) = cell (lat_N L) i (nat n)"
    and "j < nat n \<Longrightarrow> j < i \<Longrightarrow> i \<le> nat n \<Longrightarrow> cell (lat_C L) i j = Fin 0"
proof -
  let ?C1 = "terminal_boundary (lat_N L) n (zero_lattice n)"
  let ?disc = "discount_factor r (time_step T n)"
  let ?ps = "butlast (lat_ps L)"
  from n have m: "nat (n + 1) = Suc (nat n)" by simp
  from n have sq1: "square (Suc (nat n)) ?C1"
    using terminal_boundary_cells(1) [of n "lat_N L"] by (simp add: m)
  have C: "lat_C L = columns_from (lat_N L) ?disc ?ps 0 (nat n) ?C1"
    by (simp add: calculate_lattices_fields(7) [OF L] backward_induction_columns)
  note cells = columns_from_cells [OF sq1 le0, of "lat_N L" ?disc ?ps, folded C]
  from cells show "square (nat (n + 1)) (lat_C L)" by (simp add: m)
  have len: "length (lat_ps L) = Suc (nat n)"
    by (simp add: calculate_lattices_fields(6) [OF L] probabilities_def m)
  have ps: "\<And>j. j < nat n \<Longrightarrow> ?ps ! j = lat_ps L ! j"
    by (simp add: nth_butlast len)
  from cells ps show "j < nat n \<Longrightarrow> i \<le> j \<Longrightarrow>
       cell (lat_C L) i j =
         py_max (?disc * (lat_ps L ! j * cell (lat_C L) i (j + 1) +
                    (1 - lat_ps L ! j) * cell (lat_C L) (i + 1) (j + 1)))
           (cell (lat_N L) i j)"
    by simp
  from cells n show "i \<le> nat n \<Longrightarrow> cell (lat_C L) i (nat n) = cell (lat_N L) i (nat n)"
    by (simp add: terminal_boundary_cells(2) m)
  from cells n show "j < nat n \<Longrightarrow> j < i \<Longrightarrow> i \<le> nat n \<Longrightarrow> cell (lat_C L) i j = Fin 0"
    by (simp add: terminal_boundary_cells(2) cell_zero_lattice m)
qed

text \<open>
  Claim C1. For every input and every period count \<open>n \<ge> 1\<close> the function returns,
  and the option lattice it returns satisfies: the terminal column is the exercise
  lattice's, \<open>C[i][n] = N[i][n]\<close> for \<open>i \<le> n\<close>; for every \<open>j < n\<close> and \<open>i \<le> j\<close>,
  \<open>C[i][j] = max(discount * (p[j] * C[i][j+1] + (1 - p[j]) * C[i+1][j+1]), N[i][j])\<close>
  with \<open>discount = exp(-r * dt)\<close> and \<open>dt = T / n\<close>; and every cell with \<open>i > j\<close> in a
  column \<open>j < n\<close> still holds the zero it was created with.
\<close>

theorem backward_induction_recurrence:
  "1 \<le> n \<Longrightarrow>
     \<exists>L. calculate_lattices V K T sigma delta r n dm = Inr L \<and>
       discount_factor r (time_step T n) = fl_exp (- r * (T / Fin (real_of_int n))) \<and>
       (\<forall>i\<le>nat n. cell (lat_C L) i (nat n) = cell (lat_N L) i (nat n)) \<and>
       (\<forall>j<nat n. \<forall>i\<le>j.
          cell (lat_C L) i j =
            py_max (discount_factor r (time_step T n) *
                      (lat_ps L ! j * cell (lat_C L) i (j + 1) +
                       (1 - lat_ps L ! j) * cell (lat_C L) (i + 1) (j + 1)))
              (cell (lat_N L) i j)) \<and>
       (\<forall>j<nat n. \<forall>i. j < i \<and> i \<le> nat n \<longrightarrow> cell (lat_C L) i j = Fin 0)"
proof -
  assume n: "1 \<le> n"
  then obtain L where L: "calculate_lattices V K T sigma delta r n dm = Inr L"
    using calculate_lattices_returns [of n V K T sigma delta r dm] by auto
  show ?thesis
    using L option_cells(2-4) [OF L n]
    by (intro exI [of _ L]) (simp add: discount_factor_def time_step_def)
qed

theorem backward_induction_recurrence_witness:
  "\<exists>L. calculate_lattices (Fin 1000) (Fin 900) (Fin 1) (Fin 0) (Fin 0) (Fin 0) 1 None = Inr L \<and>
     cell (lat_C L) 0 1 = cell (lat_N L) 0 1 \<and>
     cell (lat_C L) 1 1 = cell (lat_N L) 1 1 \<and>
     cell (lat_C L) 0 0 =
       py_max (Fin 1 * (lat_ps L ! 0 * cell (lat_C L) 0 1 + (1 - lat_ps L ! 0) * cell (lat_C L) 1 1))
         (cell (lat_N L) 0 0) \<and>
     cell (lat_C L) 1 0 = Fin 0"
proof -
  have "(1::int) \<le> 1" by simp
  from backward_induction_recurrence [OF this, of "Fin 1000" "Fin 900" "Fin 1" "Fin 0" "Fin 0"
      "Fin 0" None]
  obtain L where L:
    "calculate_lattices (Fin 1000) (Fin 900) (Fin 1) (Fin 0) (Fin 0) (Fin 0) 1 None = Inr L"
    "discount_factor (Fin 0) (time_step (Fin 1) 1) = fl_exp (- Fin 0 * (Fin 1 / Fin (real_of_int 1)))"
    "\<forall>i\<le>nat 1. cell (lat_C L) i (nat 1) = cell (lat_N L) i (nat 1)"
    "\<forall>j<nat 1. \<forall>i\<le>j.
          cell (lat_C L) i j =
            py_max (discount_factor (Fin 0) (time_step (Fin 1) 1) *
                      (lat_ps L ! j * cell (lat_C L) i (j + 1) +
                       (1 - lat_ps L ! j) * cell (lat_C L) (i + 1) (j + 1)))
              (cell (lat_N L) i j)"
    "\<forall>j<nat 1. \<forall>i. j < i \<and> i \<le> nat 1 \<longrightarrow> cell (lat_C L) i j = Fin 0"
    by blast
  from L(3) have a: "cell (lat_C L) 0 1 = cell (lat_N L) 0 1" "cell (lat_C L) 1 1 = cell (lat_N L) 1 1"
    by simp_all
  from L(4) have b: "cell (lat_C L) 0 0 =
       py_max (Fin 1 * (lat_ps L ! 0 * cell (lat_C L) 0 1 + (1 - lat_ps L ! 0) * cell (lat_C L) 1 1))
         (cell (lat_N L) 0 0)"
    by (simp add: discount_factor_def time_step_def)
  from L(5) have c: "cell (lat_C L) 1 0 = Fin 0" by simp
  from L(1) a b c show ?thesis by blast
qed

section \<open>Sign and monotonicity of the option lattice\<close>


















subsection \<open>Concrete valuations\<close>

text \<open>
  Four valuations evaluated in full. In the first two \<open>sigma = ln (5/4)\<close> and
  \<open>r = ln 8\<close> over two periods of length 1, so \<open>u = 5/4\<close>, \<open>d = 4/5\<close>, the
  discount factor is \<open>1/8\<close> and every probability is 16. In the third \<open>sigma = ln 2\<close>
  and the probability is \<open>1/3\<close>. In the last \<open>T\<close> is negative.
\<close>

lemmas lattice_evaluation =
  calculate_lattices_def time_step_def up_factor_def down_factor_def
  asset_lattice_def exercise_lattice_def terminal_boundary_def zero_lattice_def
  discount_factor_def delta_schedule_def auto_deltas_def probabilities_def
  backward_induction_def induction_column_def induction_step_def cell_def set_cell_def
  upt_2 upt_3 Let_def numeral_3_eq_3 numeral_2_eq_2 exp_minus power_int_minus









section \<open>The sensitivity analysis: period counts and the spider percentage\<close>

lemma max_1_truncate: "max 1 (if 0 \<le> x then \<lfloor>x\<rfloor> else \<lceil>x\<rceil>) = max 1 \<lfloor>x::real\<rfloor>"
proof (cases "0 \<le> x")
  case True
  then show ?thesis by simp
next
  case False
  then have "\<lceil>x\<rceil> \<le> 0" "\<lfloor>x\<rfloor> \<le> 0" by (simp_all add: ceiling_le_iff floor_le_iff)
  with False show ?thesis by simp
qed

lemma root_cell_square: "square (Suc m) C \<Longrightarrow> root_cell C = Inr (cell C 0 0)"
  by (cases C; cases "hd C") (auto simp: square_def root_cell_def cell_def)

lemma get_C0_ignores_n: "get_C0 V K T sigma delta r n = get_C0 V K T sigma delta r n'"
  by (simp add: get_C0_def)

lemma get_C0_valuation_with:
  "get_C0 V K (Fin t) sigma delta r n = valuation_with V K (Fin t) sigma delta r (max 1 \<lfloor>t\<rfloor>)"
  by (simp add: get_C0_def valuation_with_def py_int_def max_1_truncate Let_def)

lemma valuation_with_returns:
  assumes "1 \<le> k"
  shows "\<exists>L. calculate_lattices V K T sigma delta r k None = Inr L \<and>
     valuation_with V K T sigma delta r k = Inr (cell (lat_C L) 0 0 / Fin 1000)"
proof -
  from assms obtain L where L: "calculate_lattices V K T sigma delta r k None = Inr L"
    using calculate_lattices_returns [of k V K T sigma delta r None] by auto
  from assms have "nat (k + 1) = Suc (nat k)" by simp
  with option_cells(1) [OF L assms] have "root_cell (lat_C L) = Inr (cell (lat_C L) 0 0)"
    by (simp add: root_cell_square)
  with L show ?thesis by (simp add: valuation_with_def)
qed

lemma get_C0_returns:
  "\<exists>L. calculate_lattices V K (Fin t) sigma delta r (max 1 \<lfloor>t\<rfloor>) None = Inr L \<and>
     get_C0 V K (Fin t) sigma delta r n = Inr (cell (lat_C L) 0 0 / Fin 1000)"
  using valuation_with_returns [of "max 1 \<lfloor>t\<rfloor>" V K "Fin t" sigma delta r]
  by (simp add: get_C0_valuation_with)

lemma get_C0_Fin: "get_C0 V K (Fin t) sigma delta r n = Inr (the_C0 V K (Fin t) sigma delta r)"
proof -
  from get_C0_returns [of V K t sigma delta r "()"]
  obtain c where "get_C0 V K (Fin t) sigma delta r () = Inr c" by blast
  then show ?thesis
    by (simp add: the_C0_def get_C0_ignores_n [of V K "Fin t" sigma delta r n "()"])
qed

lemma mapM_err_Inr: "(\<And>x. x \<in> set xs \<Longrightarrow> f x = Inr (g x)) \<Longrightarrow> mapM_err f xs = Inr (map g xs)"
  by (induction xs) simp_all


lemma calculate_sensitivity_data_ignores_n:
  "calculate_sensitivity_data bp n = calculate_sensitivity_data bp n'"
proof -
  have g: "get_C0 V K T sigma delta r n = get_C0 V K T sigma delta r n'"
    for V K T sigma delta r
    by (rule get_C0_ignores_n)
  have p: "perturbed_C0 V K T sigma delta r n = perturbed_C0 V K T sigma delta r n'"
    for V K T sigma delta r
    by (intro ext) (simp add: perturbed_C0_def g split: param_name.splits)
  have ts: "tornado_spider V K T sigma delta r n = tornado_spider V K T sigma delta r n'"
    for V K T sigma delta r
    by (intro ext) (simp add: tornado_spider_def p)
  have sv: "sigma_v_series V K T delta r n = sigma_v_series V K T delta r n'"
    for V K T delta r
    by (intro ext) (simp add: sigma_v_series_def g)
  have sd: "sigma_delta_series V K T delta r n = sigma_delta_series V K T delta r n'"
    for V K T delta r
    by (intro ext) (simp add: sigma_delta_series_def g)
  show ?thesis
    unfolding calculate_sensitivity_data_def g ts sv sd ..
qed

text \<open>
  Claim C2. \<^verbatim>\<open>get_C0\<close> does not depend on the \<open>n\<close> it is passed; for a number
  \<open>T\<close> it is the valuation over \<open>max(1, floor(T))\<close> periods, which always returns.
  Hence every tornado, spider and line-chart evaluation that leaves \<open>T\<close> alone runs
  over the period count \<open>max(1, floor(T))\<close> of the base valuation, whichever parameter it
  perturbs, and the two evaluations that perturb \<open>T\<close> run over
  \<open>max(1, floor(0.9 T))\<close> and \<open>max(1, floor(1.1 T))\<close> periods. The whole report is
  independent of the \<open>n\<close> passed to \<^verbatim>\<open>calculate_sensitivity_data\<close>.
\<close>

theorem get_C0_recomputes_period_count:
  "get_C0 V K T sigma delta r n = get_C0 V K T sigma delta r n' \<and>
   get_C0 V K (Fin t) sigma delta r n = valuation_with V K (Fin t) sigma delta r (max 1 \<lfloor>t\<rfloor>) \<and>
   (\<exists>L. calculate_lattices V K (Fin t) sigma delta r (max 1 \<lfloor>t\<rfloor>) None = Inr L \<and>
        get_C0 V K (Fin t) sigma delta r n = Inr (cell (lat_C L) 0 0 / Fin 1000)) \<and>
   perturbed_C0 V K (Fin t) sigma delta r m Asset_Value f =
     valuation_with (V * f) K (Fin t) sigma delta r (max 1 \<lfloor>t\<rfloor>) \<and>
   perturbed_C0 V K (Fin t) sigma delta r m Volatility f =
     valuation_with V K (Fin t) (sigma * f) delta r (max 1 \<lfloor>t\<rfloor>) \<and>
   perturbed_C0 V K (Fin t) sigma delta r m Exercise_Cost f =
     valuation_with V (K * f) (Fin t) sigma delta r (max 1 \<lfloor>t\<rfloor>) \<and>
   perturbed_C0 V K (Fin t) sigma delta r m Cost_of_Delay f =
     valuation_with V K (Fin t) sigma (delta * f) r (max 1 \<lfloor>t\<rfloor>) \<and>
   perturbed_C0 V K (Fin t) sigma delta r m Risk_free_Rate f =
     valuation_with V K (Fin t) sigma delta (r * f) (max 1 \<lfloor>t\<rfloor>) \<and>
   perturbed_C0 V K (Fin t) sigma delta r m Time_to_Maturity (Fin (9 / 10)) =
     valuation_with V K (Fin (t * (9 / 10))) sigma delta r (max 1 \<lfloor>t * (9 / 10)\<rfloor>) \<and>
   perturbed_C0 V K (Fin t) sigma delta r m Time_to_Maturity (Fin (11 / 10)) =
     valuation_with V K (Fin (t * (11 / 10))) sigma delta r (max 1 \<lfloor>t * (11 / 10)\<rfloor>) \<and>
   sigma_v_series V K (Fin t) delta r m sigma_line_range f =
     bind_err (py_round (V * f / Fin 1000)) (\<lambda>series_name.
       bind_err
         (mapM_err (\<lambda>s. bind_err (valuation_with (V * f) K (Fin t) s delta r (max 1 \<lfloor>t\<rfloor>))
                           (\<lambda>c. Inr (py_round_to 2 c))) sigma_line_range)
         (\<lambda>c_values. Inr (series_name, c_values))) \<and>
   sigma_delta_series V K (Fin t) delta r m sigma_line_range f =
     bind_err
       (mapM_err (\<lambda>s. bind_err (valuation_with V K (Fin t) s (delta * f) r (max 1 \<lfloor>t\<rfloor>))
                         (\<lambda>c. Inr (py_round_to 2 c))) sigma_line_range)
       (\<lambda>c_values. Inr (py_round_to 1 (delta * f * Fin 100), c_values)) \<and>
   calculate_sensitivity_data bp m = calculate_sensitivity_data bp m'"
proof -
  have "get_C0 V K T sigma delta r n = get_C0 V K T sigma delta r n'"
    by (simp add: get_C0_def)
  moreover have "\<exists>L. calculate_lattices V K (Fin t) sigma delta r (max 1 \<lfloor>t\<rfloor>) None = Inr L \<and>
      get_C0 V K (Fin t) sigma delta r n = Inr (cell (lat_C L) 0 0 / Fin 1000)"
    by (rule get_C0_returns)
  moreover have "calculate_sensitivity_data bp m = calculate_sensitivity_data bp m'"
    by (rule calculate_sensitivity_data_ignores_n)
  ultimately show ?thesis
    by (simp add: perturbed_C0_def sigma_v_series_def sigma_delta_series_def
        get_C0_valuation_with Let_def)
qed


lemma py_round_to_zero: "py_round_to k (Fin 0) = Fin 0"
  by (simp add: py_round_to_def round_half_even_def)

lemma perturbed_C0_returns:
  "\<exists>c. perturbed_C0 V K (Fin t) sigma delta r n name (Fin f) = Inr c"
  by (cases name) (simp_all add: perturbed_C0_def get_C0_Fin)

lemma series_returns:
  "\<exists>x. sigma_v_series (Fin v) K (Fin t) delta r n rng (Fin f) = Inr x"
  "\<exists>x. sigma_delta_series V K (Fin t) delta r n rng g = Inr x"
  by (simp_all add: sigma_v_series_def sigma_delta_series_def py_round_def get_C0_Fin Let_def
      mapM_err_Inr [where g = "\<lambda>s. py_round_to 2 (the_C0 (Fin (v * f)) K (Fin t) s delta r)"]
      mapM_err_Inr [where g = "\<lambda>s. py_round_to 2 (the_C0 V K (Fin t) s (delta * g) r)"])

text \<open>
  Claim C6. For every base parameter set whose \<open>T\<close> and \<open>V\<close> are numbers the
  sensitivity analysis returns a report, and for each of the six parameters the report
  holds a tornado entry with the minimum and the maximum of the two perturbed valuations
  and the base value, and a spider percentage that is exactly 0 when the base value is 0
  (the division is not reached) and otherwise
  \<open>max(|max - base|, |min - base|) / base * 100\<close> rounded to two decimals.
\<close>

theorem spider_percentage_guarded:
  "bp_T bp = Fin t \<Longrightarrow> bp_V_calc bp = Fin v \<Longrightarrow>
     \<exists>rep. calculate_sensitivity_data bp n = Inr rep \<and>
       get_C0 (bp_V_calc bp) (bp_K_calc bp) (bp_T bp) (bp_sigma bp) (bp_delta_val bp) (bp_r bp) n =
         Inr (base_option_value rep) \<and>
       (\<forall>name. \<exists>e a b.
          map_of (tornado rep) name = Some e \<and> t_base_value e = base_option_value rep \<and>
          perturbed_C0 (bp_V_calc bp) (bp_K_calc bp) (bp_T bp) (bp_sigma bp) (bp_delta_val bp)
            (bp_r bp) n name (Fin (9 / 10)) = Inr a \<and>
          perturbed_C0 (bp_V_calc bp) (bp_K_calc bp) (bp_T bp) (bp_sigma bp) (bp_delta_val bp)
            (bp_r bp) n name (Fin (11 / 10)) = Inr b \<and>
          t_min e = py_min a b \<and> t_max e = py_max a b \<and>
          map_of (spider rep) name =
            Some (if fl_eq (base_option_value rep) 0 then Fin 0
                  else py_round_to 2
                         (py_max \<bar>t_max e - base_option_value rep\<bar> \<bar>t_min e - base_option_value rep\<bar>
                            / base_option_value rep * Fin 100)))"
proof -
  assume T: "bp_T bp = Fin t" and V: "bp_V_calc bp = Fin v"
  let ?K = "bp_K_calc bp" and ?sigma = "bp_sigma bp" and ?delta = "bp_delta_val bp"
    and ?r = "bp_r bp"
  define base where "base = the_C0 (Fin v) ?K (Fin t) ?sigma ?delta ?r"
  define pv where "pv name f = projr (perturbed_C0 (Fin v) ?K (Fin t) ?sigma ?delta ?r n name (Fin f))"
    for name f
  define row where "row name =
      (name,
       \<lparr>t_min = py_min (pv name (9 / 10)) (pv name (11 / 10)),
        t_max = py_max (pv name (9 / 10)) (pv name (11 / 10)), t_base_value = base\<rparr>,
       spider_percent base (py_min (pv name (9 / 10)) (pv name (11 / 10)))
         (py_max (pv name (9 / 10)) (pv name (11 / 10))))" for name
  have b: "get_C0 (Fin v) ?K (Fin t) ?sigma ?delta ?r n = Inr base"
    by (simp add: base_def get_C0_Fin)
  have p: "perturbed_C0 (Fin v) ?K (Fin t) ?sigma ?delta ?r n name (Fin f) = Inr (pv name f)"
    for name f
    using perturbed_C0_returns [of "Fin v" ?K t ?sigma ?delta ?r n name f]
    by (auto simp: pv_def)
  have ts: "tornado_spider (Fin v) ?K (Fin t) ?sigma ?delta ?r n base name = Inr (row name)"
    for name
    by (simp add: tornado_spider_def p row_def Let_def)
  have rows: "mapM_err (tornado_spider (Fin v) ?K (Fin t) ?sigma ?delta ?r n base) params_to_test =
      Inr (map row params_to_test)"
    by (rule mapM_err_Inr) (rule ts)
  let ?rng = "linspace7 (?sigma * Fin (1 / 2)) (?sigma * Fin (3 / 2))"
  obtain v1 v2 v3 where
    "sigma_v_series (Fin v) ?K (Fin t) ?delta ?r n ?rng (Fin (8 / 10)) = Inr v1"
    "sigma_v_series (Fin v) ?K (Fin t) ?delta ?r n ?rng (Fin 1) = Inr v2"
    "sigma_v_series (Fin v) ?K (Fin t) ?delta ?r n ?rng (Fin (12 / 10)) = Inr v3"
    using series_returns(1) [of v ?K t ?delta ?r n ?rng] by meson
  then have vs: "mapM_err (sigma_v_series (Fin v) ?K (Fin t) ?delta ?r n ?rng)
      [Fin (8 / 10), Fin 1, Fin (12 / 10)] = Inr [v1, v2, v3]"
    by simp
  obtain d1 d2 d3 where
    "sigma_delta_series (Fin v) ?K (Fin t) ?delta ?r n ?rng (Fin (1 / 2)) = Inr d1"
    "sigma_delta_series (Fin v) ?K (Fin t) ?delta ?r n ?rng (Fin 1) = Inr d2"
    "sigma_delta_series (Fin v) ?K (Fin t) ?delta ?r n ?rng (Fin (3 / 2)) = Inr d3"
    using series_returns(2) [of "Fin v" ?K t ?delta ?r n ?rng] by meson
  then have ds: "mapM_err (sigma_delta_series (Fin v) ?K (Fin t) ?delta ?r n ?rng)
      [Fin (1 / 2), Fin 1, Fin (3 / 2)] = Inr [d1, d2, d3]"
    by simp
  define rep where "rep =
     \<lparr>tornado = map (\<lambda>(name, t, s). (name, t)) (map row params_to_test),
      spider = map (\<lambda>(name, t, s). (name, s)) (map row params_to_test),
      line_chart_v_sigma_x_labels = map (py_round_to 3) ?rng,
      line_chart_v_sigma_data = foldl (\<lambda>dict (k, v). dict_set k v dict) [] [v1, v2, v3],
      line_chart_delta_sigma_x_labels = map (py_round_to 3) ?rng,
      line_chart_delta_sigma_data = foldl (\<lambda>dict (k, v). dict_set k v dict) [] [d1, d2, d3],
      base_option_value = base\<rparr>"
  have rep: "calculate_sensitivity_data bp n = Inr rep"
    unfolding calculate_sensitivity_data_def Let_def T V b rows vs ds rep_def bind_err_simps ..
  have each: "\<exists>e a b.
          map_of (tornado rep) name = Some e \<and> t_base_value e = base_option_value rep \<and>
          perturbed_C0 (Fin v) ?K (Fin t) ?sigma ?delta ?r n name (Fin (9 / 10)) = Inr a \<and>
          perturbed_C0 (Fin v) ?K (Fin t) ?sigma ?delta ?r n name (Fin (11 / 10)) = Inr b \<and>
          t_min e = py_min a b \<and> t_max e = py_max a b \<and>
          map_of (spider rep) name =
            Some (if fl_eq (base_option_value rep) 0 then Fin 0
                  else py_round_to 2
                         (py_max \<bar>t_max e - base_option_value rep\<bar> \<bar>t_min e - base_option_value rep\<bar>
                            / base_option_value rep * Fin 100))" for name
    by (cases name)
      (simp_all add: rep_def params_to_test_def row_def p spider_percent_def py_round_to_zero Let_def)
  from rep b each show ?thesis
    unfolding T V by (intro exI [of _ rep]) (simp add: rep_def)
qed


lemma get_C0_flat:
  "get_C0 (Fin 800) (Fin 900) (Fin 1) (Fin 0) (Fin 0) (Fin 0) n = Inr (Fin 0)"
  "get_C0 (Fin 900) (Fin 900) (Fin 1) (Fin 0) (Fin 0) (Fin 0) n = Inr (Fin 0)"
  "get_C0 (Fin 1000) (Fin 900) (Fin 1) (Fin 0) (Fin 0) (Fin 0) n = Inr (Fin (1 / 10))"
  "get_C0 (Fin 1100) (Fin 900) (Fin 1) (Fin 0) (Fin 0) (Fin 0) n = Inr (Fin (1 / 5))"
  by (simp_all add: get_C0_def py_int_def root_cell_def lattice_evaluation)

theorem spider_percentage_guarded_witness:
  "(\<exists>rep. calculate_sensitivity_data
            \<lparr>bp_V_calc = Fin 800, bp_K_calc = Fin 900, bp_T = Fin 1, bp_sigma = Fin 0,
             bp_delta_val = Fin 0, bp_r = Fin 0, bp_delta_t0 = Fin 0,
             bp_deltas_manual = None\<rparr> 1 = Inr rep \<and>
          base_option_value rep = Fin 0 \<and>
          map_of (spider rep) Asset_Value = Some (Fin 0) \<and>
          map_of (spider rep) Time_to_Maturity = Some (Fin 0)) \<and>
   (\<exists>rep. calculate_sensitivity_data
            \<lparr>bp_V_calc = Fin 1000, bp_K_calc = Fin 900, bp_T = Fin 1, bp_sigma = Fin 0,
             bp_delta_val = Fin 0, bp_r = Fin 0, bp_delta_t0 = Fin 0,
             bp_deltas_manual = None\<rparr> 1 = Inr rep \<and>
          base_option_value rep = Fin (1 / 10) \<and>
          map_of (spider rep) Asset_Value = Some (Fin 100))"
proof -
  let ?bp0 = "\<lparr>bp_V_calc = Fin 800, bp_K_calc = Fin 900, bp_T = Fin 1, bp_sigma = Fin 0,
             bp_delta_val = Fin 0, bp_r = Fin 0, bp_delta_t0 = Fin 0,
             bp_deltas_manual = None\<rparr>"
  let ?bp1 = "\<lparr>bp_V_calc = Fin 1000, bp_K_calc = Fin 900, bp_T = Fin 1, bp_sigma = Fin 0,
             bp_delta_val = Fin 0, bp_r = Fin 0, bp_delta_t0 = Fin 0,
             bp_deltas_manual = None\<rparr>"
  have "bp_T ?bp0 = Fin 1" "bp_V_calc ?bp0 = Fin 800" by simp_all
  from spider_percentage_guarded [OF this, of 1, simplified]
  obtain rep0 where r0: "calculate_sensitivity_data ?bp0 1 = Inr rep0"
    "get_C0 (Fin 800) (Fin 900) (Fin 1) (Fin 0) (Fin 0) (Fin 0) (1::int) =
       Inr (base_option_value rep0)"
    "\<forall>name.
       \<exists>e. map_of (tornado rep0) name = Some e \<and>
           t_base_value e = base_option_value rep0 \<and>
           (\<exists>a. perturbed_C0 (Fin 800) (Fin 900) (Fin 1) (Fin 0) (Fin 0) (Fin 0) 1 name (Fin (9 / 10)) = Inr a \<and>
                (\<exists>b. perturbed_C0 (Fin 800) (Fin 900) (Fin 1) (Fin 0) (Fin 0) (Fin 0) 1 name (Fin (11 / 10)) = Inr b \<and>
                     t_min e = py_min a b \<and> t_max e = py_max a b \<and>
                     map_of (spider rep0) name =
                       Some (if fl_eq (base_option_value rep0) (Fin 0) then Fin 0
                             else py_round_to 2
                                    (py_max \<bar>t_max e - base_option_value rep0\<bar>
                                       \<bar>t_min e - base_option_value rep0\<bar>
                                     / base_option_value rep0 * Fin 100))))"
    by (elim exE conjE)
  from r0(2) have b0: "base_option_value rep0 = Fin 0"
    by (simp add: get_C0_flat)
  have s0: "map_of (spider rep0) name = Some (Fin 0)" for name
    using r0(3) by (auto simp: b0)
  have "bp_T ?bp1 = Fin 1" "bp_V_calc ?bp1 = Fin 1000" by simp_all
  from spider_percentage_guarded [OF this, of 1, simplified]
  obtain rep1 where r1: "calculate_sensitivity_data ?bp1 1 = Inr rep1"
    "get_C0 (Fin 1000) (Fin 900) (Fin 1) (Fin 0) (Fin 0) (Fin 0) (1::int) =
       Inr (base_option_value rep1)"
    "\<forall>name.
       \<exists>e. map_of (tornado rep1) name = Some e \<and>
           t_base_value e = base_option_value rep1 \<and>
           (\<exists>a. perturbed_C0 (Fin 1000) (Fin 900) (Fin 1) (Fin 0) (Fin 0) (Fin 0) 1 name (Fin (9 / 10)) = Inr a \<and>
                (\<exists>b. perturbed_C0 (Fin 1000) (Fin 900) (Fin 1) (Fin 0) (Fin 0) (Fin 0) 1 name (Fin (11 / 10)) = Inr b \<and>
                     t_min e = py_min a b \<and> t_max e = py_max a b \<and>
                     map_of (spider rep1) name =
                       Some (if fl_eq (base_option_value rep1) (Fin 0) then Fin 0
                             else py_round_to 2
                                    (py_max \<bar>t_max e - base_option_value rep1\<bar>
                                       \<bar>t_min e - base_option_value rep1\<bar>
                                     / base_option_value rep1 * Fin 100))))"
    by (elim exE conjE)
  from r1(2) have b1: "base_option_value rep1 = Fin (1 / 10)"
    by (simp add: get_C0_flat)
  from spec [OF r1(3), of Asset_Value] obtain e a b where e:
    "map_of (tornado rep1) Asset_Value = Some e" "t_base_value e = base_option_value rep1"
    "perturbed_C0 (Fin 1000) (Fin 900) (Fin 1) (Fin 0) (Fin 0) (Fin 0) 1 Asset_Value (Fin (9 / 10)) = Inr a"
    "perturbed_C0 (Fin 1000) (Fin 900) (Fin 1) (Fin 0) (Fin 0) (Fin 0) 1 Asset_Value (Fin (11 / 10)) = Inr b"
    "t_min e = py_min a b" "t_max e = py_max a b"
    "map_of (spider rep1) Asset_Value =
         Some (if fl_eq (base_option_value rep1) (Fin 0) then Fin 0
               else py_round_to 2
                      (py_max \<bar>t_max e - base_option_value rep1\<bar> \<bar>t_min e - base_option_value rep1\<bar>
                         / base_option_value rep1 * Fin 100))"
    by (elim exE conjE)
  from e(3) have "a = Fin 0"
    by (simp add: perturbed_C0_def get_C0_flat)
  moreover from e(4) have "b = Fin (1 / 5)"
    by (simp add: perturbed_C0_def get_C0_flat)
  ultimately have "a = Fin 0" "b = Fin (1 / 5)" .
  with e(5,6,7) b1 have s1: "map_of (spider rep1) Asset_Value = Some (Fin 100)"
    by (simp add: py_round_to_def round_half_even_def)
  from r0(1) b0 s0 r1(1) b1 s1 show ?thesis by blast
qed

section \<open>The route: period count, validation and the manual fallback\<close>

lemma raised_simps [simp]:
  "raised (Inl e) = Inl (Server_Error e)" "raised (Inr x) = Inr x"
  by (simp_all add: raised_def)

lemma one_if_zero: "0 \<le> k \<Longrightarrow> (if k = 0 then 1 else k) = max 1 (k::int)"
  by auto

lemma period_count_floor: "- 1 < T \<Longrightarrow> period_count (Fin T) = Inr (max 1 \<lfloor>T\<rfloor>)"
proof (cases "0 \<le> T")
  case True
  then have "0 \<le> \<lfloor>T\<rfloor>" by simp
  then have "(if \<lfloor>T\<rfloor> = 0 then 1 else \<lfloor>T\<rfloor>) = max 1 \<lfloor>T\<rfloor>"
    by (rule one_if_zero)
  with True show ?thesis by (simp add: period_count_def py_int_def)
next
  case False
  assume "- 1 < T"
  with False have "\<lceil>T\<rceil> = 0" "\<lfloor>T\<rfloor> = - 1"
    by (simp_all add: ceiling_eq_iff floor_eq_iff)
  with False show ?thesis by (simp add: period_count_def py_int_def)
qed

text \<open>
  Claim C4, at the request with \<open>T = -2\<close>. The claim gives the period count
  \<open>max(1, floor(T)) = 1\<close>. The route computes \<^verbatim>\<open>int(T) = -2\<close>, replaces only a
  zero by 1, and runs the valuation with \<open>n = -2\<close>: every range is empty, so are the
  lattices, \<^verbatim>\<open>C[0][0]\<close> raises \<^verbatim>\<open>IndexError\<close> and the response is the status
  500. (For \<open>T > -1\<close> the two agree, see \<open>period_count_floor\<close>; \<^verbatim>\<open>get_C0\<close>
  computes \<^verbatim>\<open>max(1, int(T))\<close>, which is 1 here.)
\<close>

theorem period_count_negative_T:
  "period_count (Fin (- 2)) = Inr (- 2) \<and>
   max 1 \<lfloor>- 2 :: real\<rfloor> = (1 :: int) \<and>
   calculate float_of_str strip request_negative_T = Server_Error IndexError"
  by (simp add: period_count_def py_int_def calculate_def parse_request_def parse_delta_def
      request_negative_T_def item_def py_float_def valuation_response_def root_cell_def
      lattice_evaluation)


lemma mapM_err_fails:
  "e \<in> set xs \<Longrightarrow> f e = Inl err \<Longrightarrow> \<exists>err'. mapM_err f xs = Inl err'"
proof (induction xs)
  case Nil
  then show ?case by simp
next
  case (Cons x xs)
  then show ?case
    by (cases "f x"; cases "mapM_err f xs") auto
qed

lemma parse_manual_bad_entry:
  assumes "s \<noteq> []" "e \<in> set (split_comma s)" "float_of_str (strip e) = None"
  shows "parse_manual float_of_str strip (JStr s) =
     Inl (Bad_Request ''Manual Cost of Delay values must be valid numbers.'')"
proof -
  from assms(3) have "py_float float_of_str (JStr (strip e)) = Inl ValueError"
    by (simp add: py_float_def)
  with assms(2) obtain err where
    "mapM_err (\<lambda>d. py_float float_of_str (JStr (strip d))) (split_comma s) = Inl err"
    using mapM_err_fails [of e "split_comma s" "\<lambda>d. py_float float_of_str (JStr (strip d))"]
    by blast
  with assms(1) show ?thesis
    by (simp add: parse_manual_def truthy_def)
qed

text \<open>
  Claim C8, as amended. If the fields \<open>V\<close> and \<open>K\<close> of the request are present and
  convert to floats, the mode is not \<^verbatim>\<open>'auto'\<close>, and the cost of delay is a non-empty
  string one of whose comma-separated entries, stripped, is not a number, then the route
  answers with status 400 and the message of the inner handler; the response carries
  nothing else. (\<open>V\<close> and \<open>K\<close> are converted before the sequence is read: when one of
  them fails, the response is the status 500 of the outer handler, see the
  counterexample.)
\<close>

theorem manual_entry_validation:
  "bind_err (item data ''V'') (py_float float_of_str) = Inr V \<Longrightarrow>
   bind_err (item data ''K'') (py_float float_of_str) = Inr K \<Longrightarrow>
   data ''delta-mode'' = Some mode \<Longrightarrow> mode \<noteq> JStr ''auto'' \<Longrightarrow>
   data ''delta'' = Some (JStr s) \<Longrightarrow> s \<noteq> [] \<Longrightarrow>
   e \<in> set (split_comma s) \<Longrightarrow> float_of_str (strip e) = None \<Longrightarrow>
     calculate float_of_str strip data =
       Bad_Request ''Manual Cost of Delay values must be valid numbers.''"
  by (simp add: calculate_def parse_request_def parse_delta_def item_def
      parse_manual_bad_entry)

theorem manual_entry_validation_witness:
  "''x'' \<in> set (split_comma ''1,x'') \<and> example_float ''x'' = None \<and>
   calculate example_float id request_bad_entry =
     Bad_Request ''Manual Cost of Delay values must be valid numbers.''"
proof -
  have e: "''x'' \<in> set (split_comma ''1,x'')" "example_float (id ''x'') = None"
    by (simp_all add: example_float_def)
  have "bind_err (item request_bad_entry ''V'') (py_float example_float) = Inr (Fin 1)"
    "bind_err (item request_bad_entry ''K'') (py_float example_float) = Inr (Fin 1)"
    "request_bad_entry ''delta-mode'' = Some (JStr ''manual'')" "JStr ''manual'' \<noteq> JStr ''auto''"
    "request_bad_entry ''delta'' = Some (JStr ''1,x'')" "''1,x'' \<noteq> []"
    by (simp_all add: request_bad_entry_def item_def py_float_def)
  from manual_entry_validation [where float_of_str = example_float and strip = id
      and e = "''x''", OF this e] e
  show ?thesis by simp
qed

text \<open>
  The counterexample to claim C8 as stated: a request in manual mode whose sequence
  \<^verbatim>\<open>'1,x'\<close> has the non-numeric entry \<^verbatim>\<open>'x'\<close>, and whose \<open>V\<close> is
  \<^verbatim>\<open>'abc'\<close>. The conversion of \<open>V\<close> raises first; the response is the status 500.
\<close>

theorem manual_entry_validation_counterexample:
  "request_bad_V ''delta-mode'' = Some (JStr ''manual'') \<and>
   request_bad_V ''delta'' = Some (JStr ''1,x'') \<and>
   ''x'' \<in> set (split_comma ''1,x'') \<and> example_float (id ''x'') = None \<and>
   calculate example_float id request_bad_V = Server_Error ValueError \<and>
   calculate example_float id request_bad_V \<noteq>
     Bad_Request ''Manual Cost of Delay values must be valid numbers.''"
  by (simp add: calculate_def parse_request_def item_def py_float_def request_bad_V_def
      example_float_def)


lemma bind_err_Inr_iff: "bind_err m f = Inr y \<longleftrightarrow> (\<exists>x. m = Inr x \<and> f x = Inr y)"
  by (cases m) simp_all

lemma raised_Inr_iff: "raised m = Inr y \<longleftrightarrow> m = Inr y"
  by (cases m) simp_all

lemma parse_delta_manual:
  "parse_delta float_of_str strip data = Inr (a, dv, Some xs) \<Longrightarrow>
     dv = (case xs of [] \<Rightarrow> Fin 0 | x # _ \<Rightarrow> x)"
  by (auto simp: parse_delta_def bind_err_Inr_iff Let_def split: if_splits)

lemma parse_request_parts:
  assumes "parse_request float_of_str strip data = Inr pr"
  shows "parse_delta float_of_str strip data = Inr (pr_auto pr, pr_delta_val pr, pr_deltas_manual pr)"
    and "period_count (pr_T pr) = Inr (pr_n pr)"
  using assms
  by (auto simp: parse_request_def bind_err_Inr_iff raised_Inr_iff)

lemma period_count_nonzero: "period_count T = Inr n \<Longrightarrow> n \<noteq> 0"
  by (auto simp: period_count_def bind_err_Inr_iff split: if_splits)

lemma sensitivity_ignores_manual:
  "calculate_sensitivity_data
     \<lparr>bp_V_calc = V, bp_K_calc = K, bp_T = T, bp_sigma = sigma, bp_delta_val = delta,
      bp_r = r, bp_delta_t0 = t0, bp_deltas_manual = dm\<rparr> n =
   calculate_sensitivity_data
     \<lparr>bp_V_calc = V, bp_K_calc = K, bp_T = T, bp_sigma = sigma, bp_delta_val = delta,
      bp_r = r, bp_delta_t0 = t0, bp_deltas_manual = None\<rparr> n"
  by (simp add: calculate_sensitivity_data_def)

lemma calculate_lattices_ignores_manual:
  "int (length xs) \<noteq> n \<Longrightarrow>
     calculate_lattices V K T sigma delta r n (Some xs) = calculate_lattices V K T sigma delta r n None"
  by (simp add: calculate_lattices_def delta_schedule_def)

lemma length_auto_deltas:
  "n \<noteq> 0 \<Longrightarrow> length (auto_deltas delta n) = nat (n + 1)"
  by (simp add: auto_deltas_def Let_def)

text \<open>
  Claim C10. Whenever the route has read a request in manual mode (the inputs are parsed
  and \<open>deltas_manual\<close> is a list \<open>xs\<close>) and the length of \<open>xs\<close> is not the period
  count \<open>n\<close>: the scalar cost of delay is the first entry of \<open>xs\<close>, or 0 when \<open>xs\<close> is
  empty; \<^verbatim>\<open>calculate_lattices\<close> returns exactly what it returns without a manual
  sequence, for all other arguments; it does return, its schedule is the auto-mode
  schedule of the scalar and not \<open>xs\<close> with 1 appended; and the response of the route is
  the one it gives when \<open>deltas_manual\<close> is \<open>None\<close>.
\<close>

theorem silent_manual_fallback:
  "parse_request float_of_str strip data = Inr pr \<Longrightarrow> pr_deltas_manual pr = Some xs \<Longrightarrow>
   int (length xs) \<noteq> pr_n pr \<Longrightarrow>
     pr_delta_val pr = (case xs of [] \<Rightarrow> Fin 0 | x # _ \<Rightarrow> x) \<and>
     calculate_lattices V K T sigma delta r (pr_n pr) (Some xs) =
       calculate_lattices V K T sigma delta r (pr_n pr) None \<and>
     (\<exists>L. calculate_lattices V K T sigma delta r (pr_n pr) (Some xs) = Inr L \<and>
          lat_deltas L = auto_deltas delta (pr_n pr) \<and> lat_deltas L \<noteq> xs @ [Fin 1]) \<and>
     valuation_response data pr = valuation_response data (pr\<lparr>pr_deltas_manual := None\<rparr>) \<and>
     calculate float_of_str strip data =
       (case valuation_response data (pr\<lparr>pr_deltas_manual := None\<rparr>) of
          Inl resp \<Rightarrow> resp | Inr resp \<Rightarrow> resp)"
proof -
  assume pr: "parse_request float_of_str strip data = Inr pr"
    and xs: "pr_deltas_manual pr = Some xs" and len: "int (length xs) \<noteq> pr_n pr"
  note parts = parse_request_parts [OF pr]
  from parts(1) xs have dv: "pr_delta_val pr = (case xs of [] \<Rightarrow> Fin 0 | x # _ \<Rightarrow> x)"
    by (simp add: parse_delta_manual)
  from parts(2) have n0: "pr_n pr \<noteq> 0" by (rule period_count_nonzero)
  have same: "calculate_lattices V K T sigma delta r (pr_n pr) (Some xs) =
      calculate_lattices V K T sigma delta r (pr_n pr) None" for V K T sigma delta r
    using len by (rule calculate_lattices_ignores_manual)
  from n0 obtain L where L: "calculate_lattices V K T sigma delta r (pr_n pr) None = Inr L"
    "lat_deltas L = delta_schedule delta (pr_n pr) None"
    using calculate_lattices_deltas [of "pr_n pr" V K T sigma delta r None] by blast
  from L(2) have deltas: "lat_deltas L = auto_deltas delta (pr_n pr)"
    by (simp add: delta_schedule_def)
  from n0 len have "length (auto_deltas delta (pr_n pr)) \<noteq> length (xs @ [Fin 1])"
    by (auto simp: length_auto_deltas)
  with deltas have differ: "lat_deltas L \<noteq> xs @ [Fin 1]" by auto
  have resp: "valuation_response data pr = valuation_response data (pr\<lparr>pr_deltas_manual := None\<rparr>)"
    by (simp add: valuation_response_def xs same Let_def
        sensitivity_ignores_manual [where dm = "Some xs"] cong: if_cong)
  from pr resp have "calculate float_of_str strip data =
       (case valuation_response data (pr\<lparr>pr_deltas_manual := None\<rparr>) of
          Inl resp \<Rightarrow> resp | Inr resp \<Rightarrow> resp)"
    by (simp add: calculate_def)
  with dv same L(1) deltas differ resp show ?thesis by simp
qed

lemma parse_request_short_manual:
  "parse_request example_float id request_short_manual =
     Inr \<lparr>pr_V_input_thousands = Fin 1, pr_K_input_thousands = Fin 1, pr_auto = False,
          pr_delta_val = Fin 1, pr_deltas_manual = Some [Fin 1], pr_T = Fin 2,
          pr_sigma = Fin 0, pr_r = Fin 0, pr_n = 2\<rparr>"
  by (simp add: parse_request_def parse_delta_def parse_manual_def truthy_def item_def
      py_float_def request_short_manual_def example_float_def period_count_def py_int_def)

theorem silent_manual_fallback_witness:
  "parse_request example_float id request_short_manual =
     Inr \<lparr>pr_V_input_thousands = Fin 1, pr_K_input_thousands = Fin 1, pr_auto = False,
          pr_delta_val = Fin 1, pr_deltas_manual = Some [Fin 1], pr_T = Fin 2,
          pr_sigma = Fin 0, pr_r = Fin 0, pr_n = 2\<rparr> \<and>
   calculate_lattices (Fin 1000) (Fin 1000) (Fin 2) (Fin 0) (Fin 1) (Fin 0) 2 (Some [Fin 1]) =
     calculate_lattices (Fin 1000) (Fin 1000) (Fin 2) (Fin 0) (Fin 1) (Fin 0) 2 None \<and>
   (\<exists>L. calculate_lattices (Fin 1000) (Fin 1000) (Fin 2) (Fin 0) (Fin 1) (Fin 0) 2 (Some [Fin 1])
          = Inr L \<and>
        lat_deltas L = [Fin 1, Fin 1, Fin 1] \<and> lat_deltas L \<noteq> [Fin 1, Fin 1])"
proof -
  let ?pr = "\<lparr>pr_V_input_thousands = Fin 1, pr_K_input_thousands = Fin 1, pr_auto = False,
          pr_delta_val = Fin 1, pr_deltas_manual = Some [Fin 1], pr_T = Fin 2,
          pr_sigma = Fin 0, pr_r = Fin 0, pr_n = 2\<rparr>"
  have "pr_deltas_manual ?pr = Some [Fin 1]" "int (length [Fin 1]) \<noteq> pr_n ?pr"
    by simp_all
  note fb = silent_manual_fallback [OF parse_request_short_manual this,
      of "Fin 1000" "Fin 1000" "Fin 2" "Fin 0" "Fin 1" "Fin 0"]
  from fb have same:
    "calculate_lattices (Fin 1000) (Fin 1000) (Fin 2) (Fin 0) (Fin 1) (Fin 0) (pr_n ?pr)
       (Some [Fin 1]) =
     calculate_lattices (Fin 1000) (Fin 1000) (Fin 2) (Fin 0) (Fin 1) (Fin 0) (pr_n ?pr) None"
    by (elim conjE)
  from fb obtain L where L:
    "calculate_lattices (Fin 1000) (Fin 1000) (Fin 2) (Fin 0) (Fin 1) (Fin 0) (pr_n ?pr)
       (Some [Fin 1]) = Inr L"
    "lat_deltas L = auto_deltas (Fin 1) (pr_n ?pr)" "lat_deltas L \<noteq> [Fin 1] @ [Fin 1]"
    by (elim conjE exE)
  have "auto_deltas (Fin 1) 2 = [Fin 1, Fin 1, Fin 1]"
    by (simp add: auto_deltas_def upt_3 numeral_3_eq_3)
  with L have "\<exists>L. calculate_lattices (Fin 1000) (Fin 1000) (Fin 2) (Fin 0) (Fin 1) (Fin 0) 2
          (Some [Fin 1]) = Inr L \<and>
        lat_deltas L = [Fin 1, Fin 1, Fin 1] \<and> lat_deltas L \<noteq> [Fin 1, Fin 1]"
    by (intro exI [of _ L]) simp
  with same parse_request_short_manual show ?thesis
    by simp
qed

end
